theory Spec2Isabelle
  imports Complex_Main "HOL-Library.Sublist"
begin

section \<open>Text and the string primitives of the runtime\<close>

text \<open>
  A Python \<open>str\<close> is a sequence of Unicode code points. A code point is a natural
  number (written in hexadecimal below, as in the Unicode charts) and a string is a list
  of code points, so that \<open>length\<close> counts what Python's \<open>len\<close> counts.
\<close>

type_synonym codepoint = nat
type_synonym str = "codepoint list"

text \<open>
  \<open>str.replace(old, new)\<close>: the occurrences of \<open>old\<close> are found from left to right
  and do not overlap; an empty \<open>old\<close> matches before every character and at the end.
\<close>

fun replace_scan :: "str \<Rightarrow> str \<Rightarrow> str \<Rightarrow> str" where
  "replace_scan old new [] = []"
| "replace_scan old new (c # cs) =
     (if prefix old (c # cs) then new @ replace_scan old new (drop (length old - 1) cs)
      else c # replace_scan old new cs)"

definition py_replace :: "str \<Rightarrow> str \<Rightarrow> str \<Rightarrow> str" where
  "py_replace old new s =
     (if old = [] then concat (map (\<lambda>c. new @ [c]) s) @ new else replace_scan old new s)"

text \<open>
  \<open>for old, new in table.items(): result = result.replace(old, new)\<close>: the entries of
  a dictionary are visited in insertion order, each on the result of the one before.
\<close>

definition replace_all :: "(str \<times> str) list \<Rightarrow> str \<Rightarrow> str" where
  "replace_all table s = foldl (\<lambda>r (old, new). py_replace old new r) s table"

text \<open>
  \<open>str.isspace\<close> on one character (the characters \<open>str.strip()\<close> removes): bidirectional
  class WS, B or S, or general category Zs.
\<close>

definition py_isspace :: "codepoint \<Rightarrow> bool" where
  "py_isspace c \<longleftrightarrow>
     (0x09 \<le> c \<and> c \<le> 0x0D) \<or> (0x1C \<le> c \<and> c \<le> 0x20) \<or> c = 0x85 \<or> c = 0xA0 \<or>
     c = 0x1680 \<or> (0x2000 \<le> c \<and> c \<le> 0x200A) \<or> c = 0x2028 \<or> c = 0x2029 \<or>
     c = 0x202F \<or> c = 0x205F \<or> c = 0x3000"

definition py_strip :: "str \<Rightarrow> str" where
  "py_strip s = rev (dropWhile py_isspace (rev (dropWhile py_isspace s)))"

text \<open>
  \<open>re.sub(r"[...]+", repl, s)\<close> for a character class \<open>P\<close>: every maximal run of
  characters of the class is replaced, from left to right (the quantifier is greedy, and
  the search resumes after the run). The replacement \<open>f\<close> is computed from the run that
  matched; a literal replacement ignores it.
\<close>

function re_sub_runs :: "(codepoint \<Rightarrow> bool) \<Rightarrow> (str \<Rightarrow> str) \<Rightarrow> str \<Rightarrow> str" where
  "re_sub_runs P f [] = []"
| "re_sub_runs P f (c # cs) =
     (if P c then f (c # takeWhile P cs) @ re_sub_runs P f (dropWhile P cs)
      else c # re_sub_runs P f cs)"
  by pat_completeness auto
termination
  by (relation "measure (\<lambda>(P, f, s). length s)")
     (auto simp: length_dropWhile_le less_Suc_eq_le)

text \<open>
  A replacement given as a string is a template: \<open>re.sub\<close> compiles it before it
  searches, and a backslash in it starts an escape. For the patterns of this module,
  which have no capturing group, \<open>\g<0>\<close> (the whole match) is the only group
  reference that compiles; any other one, an unknown escape of an ASCII letter and a
  backslash at the end raise an exception (\<open>re.error\<close>, or \<open>IndexError\<close> for an unknown
  group name).
\<close>

datatype py_error = TemplateError

datatype template_item = Chr codepoint | Whole_Match

definition octdigit :: "codepoint \<Rightarrow> bool" where
  "octdigit c \<longleftrightarrow> 0x30 \<le> c \<and> c \<le> 0x37"

definition digit :: "codepoint \<Rightarrow> bool" where
  "digit c \<longleftrightarrow> 0x30 \<le> c \<and> c \<le> 0x39"

definition ascii_letter :: "codepoint \<Rightarrow> bool" where
  "ascii_letter c \<longleftrightarrow> (0x41 \<le> c \<and> c \<le> 0x5A) \<or> (0x61 \<le> c \<and> c \<le> 0x7A)"

text \<open>The escapes \<open>\a \b \f \n \r \t \v \\\<close> of a template.\<close>

definition template_escape :: "codepoint \<Rightarrow> codepoint option" where
  "template_escape c =
     (if c = 0x61 then Some 0x07 else if c = 0x62 then Some 0x08
      else if c = 0x66 then Some 0x0C else if c = 0x6E then Some 0x0A
      else if c = 0x72 then Some 0x0D else if c = 0x74 then Some 0x09
      else if c = 0x76 then Some 0x0B else if c = 0x5C then Some 0x5C else None)"

text \<open>
  \<open>\g<name>\<close> in a pattern without groups: the name must be a non-empty run of ASCII
  decimal digits of value 0. (A name that is an identifier raises "unknown group
  name", a positive number "invalid group reference".)
\<close>

definition group_name :: "str \<Rightarrow> bool" where
  "group_name name \<longleftrightarrow> name \<noteq> [] \<and> list_all (\<lambda>c. c = 0x30) name"

text \<open>
  The template parser proper: \<open>parse_template\<close> reads one item (a character, or a
  backslash with what belongs to it) and continues on what is left; the first error
  ends the parse.
\<close>

lemma length_dropWhile_less:
  "length (dropWhile Q xs) - k < Suc (Suc (length xs))"
  "length (dropWhile Q xs) - k \<le> Suc (Suc (length xs))"
  "length (dropWhile Q xs) - k \<le> Suc (length xs)"
  using length_dropWhile_le [of Q xs] by arith+

definition template_cons :: "template_item list \<Rightarrow> py_error + template_item list \<Rightarrow>
    py_error + template_item list" where
  "template_cons items r = (case r of Inl e \<Rightarrow> Inl e | Inr more \<Rightarrow> Inr (items @ more))"

function parse_template :: "str \<Rightarrow> py_error + template_item list" where
  "parse_template [] = Inr []"
| "parse_template (c # cs) =
     (if c \<noteq> 0x5C then template_cons [Chr c] (parse_template cs)
      else (case cs of
          [] \<Rightarrow> Inl TemplateError
        | e # rest \<Rightarrow>
            if e = 0x67 then
              (case rest of
                 [] \<Rightarrow> Inl TemplateError
               | b # name \<Rightarrow>
                   if b = 0x3C \<and> 0x3E \<in> set name \<and> group_name (takeWhile (\<lambda>x. x \<noteq> 0x3E) name)
                   then template_cons [Whole_Match]
                          (parse_template (drop 1 (dropWhile (\<lambda>x. x \<noteq> 0x3E) name)))
                   else Inl TemplateError)
            else if e = 0x30 then
              (let ds = takeWhile octdigit (take 2 rest)
               in template_cons [Chr (foldl (\<lambda>n d. 8 * n + (d - 0x30)) 0 ds mod 256)]
                    (parse_template (drop (length ds) rest)))
            else if digit e then
              (case rest of
                 d2 # d3 # more \<Rightarrow>
                   if octdigit e \<and> octdigit d2 \<and> octdigit d3 then
                     (let n = 64 * (e - 0x30) + 8 * (d2 - 0x30) + (d3 - 0x30)
                      in if n > 255 then Inl TemplateError
                         else template_cons [Chr n] (parse_template more))
                   else Inl TemplateError
               | _ \<Rightarrow> Inl TemplateError)
            else (case template_escape e of
                 Some x \<Rightarrow> template_cons [Chr x] (parse_template rest)
               | None \<Rightarrow>
                   if ascii_letter e then Inl TemplateError
                   else template_cons [Chr 0x5C, Chr e] (parse_template rest))))"
  by pat_completeness auto
termination
  by (relation "measure length") (auto simp: length_dropWhile_less less_Suc_eq_le le_SucI)

definition expand_template :: "template_item list \<Rightarrow> str \<Rightarrow> str" where
  "expand_template items m =
     concat (map (\<lambda>i. case i of Chr c \<Rightarrow> [c] | Whole_Match \<Rightarrow> m) items)"

text \<open>\<open>re.sub(r" +", repl, s)\<close> with a replacement template.\<close>

definition re_sub_spaces :: "str \<Rightarrow> str \<Rightarrow> py_error + str" where
  "re_sub_spaces repl s =
     (case parse_template repl of
        Inl e \<Rightarrow> Inl e
      | Inr items \<Rightarrow> Inr (re_sub_runs (\<lambda>c. c = 0x20) (expand_template items) s))"

section \<open>The Unicode character database\<close>

text \<open>
  The module calls \<open>unicodedata.normalize\<close>, \<open>unicodedata.category\<close>, \<open>str.upper\<close>,
  \<open>str.lower\<close>, \<open>str.isupper\<close>, \<open>str.isalpha\<close> and the regular-expression class
  \<open>\w\<close>. What they compute is fixed by the tables of the Unicode character database of
  the running interpreter. The tables are a parameter \<open>u\<close> of every function that
  consults them:
  \<^item> \<open>decomposition u c\<close> is the full canonical decomposition of \<open>c\<close> (its canonical
    mapping expanded to the end), and \<open>[c]\<close> when \<open>c\<close> has none;
  \<^item> \<open>combining u c\<close> is the canonical combining class (\<open>unicodedata.combining\<close>);
  \<^item> \<open>composition u a b\<close> is the primary composite of the pair, if there is one;
  \<^item> \<open>category u c\<close> is the general category (\<open>unicodedata.category\<close>);
  \<^item> \<open>upper_full u c\<close> and \<open>lower_full u c\<close> are the full case mappings of one character;
  \<^item> \<open>cased u\<close> and \<open>case_ignorable u\<close> are the properties the final-sigma rule reads;
  \<^item> \<open>isalpha u\<close>, \<open>isupper u\<close> and \<open>isalnum u\<close> are the string predicates on one
    character.
\<close>

record ucd =
  decomposition :: "codepoint \<Rightarrow> str"
  combining :: "codepoint \<Rightarrow> nat"
  composition :: "codepoint \<Rightarrow> codepoint \<Rightarrow> codepoint option"
  category :: "codepoint \<Rightarrow> string"
  upper_full :: "codepoint \<Rightarrow> str"
  lower_full :: "codepoint \<Rightarrow> str"
  cased :: "codepoint \<Rightarrow> bool"
  case_ignorable :: "codepoint \<Rightarrow> bool"
  isalpha :: "codepoint \<Rightarrow> bool"
  isupper :: "codepoint \<Rightarrow> bool"
  isalnum :: "codepoint \<Rightarrow> bool"

subsection \<open>Normalisation forms\<close>

text \<open>
  Canonical ordering: within a run of characters of non-zero combining class, the
  characters are sorted by combining class, and characters of the same class keep
  their order. \<open>insert_mark\<close> puts one character in front of an ordered string and lets
  it move right past the marks of smaller class.
\<close>

fun insert_mark :: "ucd \<Rightarrow> codepoint \<Rightarrow> str \<Rightarrow> str" where
  "insert_mark u c [] = [c]"
| "insert_mark u c (x # xs) =
     (if combining u x \<noteq> 0 \<and> combining u x < combining u c then x # insert_mark u c xs
      else c # x # xs)"

definition canonical_order :: "ucd \<Rightarrow> str \<Rightarrow> str" where
  "canonical_order u s = foldr (insert_mark u) s []"

definition nfd :: "ucd \<Rightarrow> str \<Rightarrow> str" where
  "nfd u s = canonical_order u (concat (map (decomposition u) s))"

text \<open>
  Canonical composition. \<open>absorb u code comb rest\<close> scans the characters after \<open>code\<close>:
  \<open>comb\<close> is the combining class of the last character that was kept (0 when none was).
  A character is blocked when a kept character of the same or a higher class stands
  before it; a starter after a kept character ends the scan. An unblocked character
  that has a primary composite with \<open>code\<close> is absorbed into it. The result is the
  composite and the characters that remain.
\<close>

fun absorb :: "ucd \<Rightarrow> codepoint \<Rightarrow> nat \<Rightarrow> str \<Rightarrow> codepoint \<times> str" where
  "absorb u code comb [] = (code, [])"
| "absorb u code comb (c1 # rest) =
     (let comb1 = combining u c1 in
      if comb \<noteq> 0 \<and> comb1 = 0 then (code, c1 # rest)
      else if comb \<noteq> 0 \<and> comb1 \<le> comb then
        (case absorb u code comb rest of (p, r) \<Rightarrow> (p, c1 # r))
      else
        (case composition u code c1 of
           Some p \<Rightarrow> absorb u p comb rest
         | None \<Rightarrow>
             if comb1 = 0 then (code, c1 # rest)
             else (case absorb u code comb1 rest of (p, r) \<Rightarrow> (p, c1 # r))))"

function compose :: "ucd \<Rightarrow> str \<Rightarrow> str" where
  "compose u [] = []"
| "compose u (c # cs) = (case absorb u c 0 cs of (p, r) \<Rightarrow> p # compose u r)"
  by pat_completeness auto
termination
proof -
  have shorter: "length (snd (absorb u code comb rest)) \<le> length rest" for u code comb rest
  proof (induction rest arbitrary: code comb)
    case Nil
    show ?case by simp
  next
    case (Cons c1 rest)
    show ?case
      using Cons [of code comb] Cons [of code "combining u c1"]
        Cons [of "the (composition u code c1)" comb]
      by (auto simp: Let_def split: prod.splits option.splits)
  qed
  have "length y \<le> length cs" if "(x, y) = absorb u c 0 cs" for u c cs x y
    using shorter [of u c 0 cs] that [symmetric] by simp
  then show ?thesis
    by (relation "measure (\<lambda>(u, s). length s)") (auto simp: less_Suc_eq_le)
qed

definition nfc :: "ucd \<Rightarrow> str \<Rightarrow> str" where
  "nfc u s = compose u (nfd u s)"

subsection \<open>Case mapping\<close>

definition py_upper :: "ucd \<Rightarrow> str \<Rightarrow> str" where
  "py_upper u s = concat (map (upper_full u) s)"

text \<open>
  \<open>str.lower\<close> maps every character by its full lowercase mapping, except capital sigma
  (U+03A3): it becomes final sigma (U+03C2) when a cased character stands before it and
  none after it, case-ignorable characters being skipped on both sides, and small sigma
  (U+03C3) otherwise. \<open>seen\<close> holds the characters already read, the nearest first.
\<close>

definition handle_capital_sigma :: "ucd \<Rightarrow> str \<Rightarrow> str \<Rightarrow> codepoint" where
  "handle_capital_sigma u seen following =
     (let final_sigma =
            (case dropWhile (case_ignorable u) seen of [] \<Rightarrow> False | c # _ \<Rightarrow> cased u c);
          final_sigma =
            (if final_sigma
             then (case dropWhile (case_ignorable u) following of
                     [] \<Rightarrow> True | c # _ \<Rightarrow> \<not> cased u c)
             else False)
      in if final_sigma then 0x3C2 else 0x3C3)"

fun lower_scan :: "ucd \<Rightarrow> str \<Rightarrow> str \<Rightarrow> str" where
  "lower_scan u seen [] = []"
| "lower_scan u seen (c # cs) =
     (if c = 0x3A3 then [handle_capital_sigma u seen cs] else lower_full u c)
     @ lower_scan u (c # seen) cs"

definition py_lower :: "ucd \<Rightarrow> str \<Rightarrow> str" where
  "py_lower u s = lower_scan u [] s"

subsection \<open>Word boundaries\<close>

text \<open>
  \<open>\w\<close> matches the alphanumeric characters and the underscore. \<open>\b\<close> matches between
  two positions of which exactly one holds a word character; outside the string there
  is none.
\<close>

definition is_word :: "ucd \<Rightarrow> codepoint option \<Rightarrow> bool" where
  "is_word u c = (case c of None \<Rightarrow> False | Some x \<Rightarrow> isalnum u x \<or> x = 0x5F)"

definition at_boundary :: "ucd \<Rightarrow> codepoint option \<Rightarrow> codepoint option \<Rightarrow> bool" where
  "at_boundary u prev next = (is_word u prev \<noteq> is_word u next)"

text \<open>
  \<open>re.sub(rf"\b{word}\b", repl, s)\<close> for a non-empty literal \<open>word\<close> and a literal
  replacement. \<open>prev\<close> is the character before the position of the search.
\<close>

fun re_sub_word :: "ucd \<Rightarrow> str \<Rightarrow> str \<Rightarrow> codepoint option \<Rightarrow> str \<Rightarrow> str" where
  "re_sub_word u word repl prev [] = []"
| "re_sub_word u word repl prev (c # cs) =
     (if prefix word (c # cs) \<and> at_boundary u prev (Some c)
         \<and> at_boundary u (Some (last word))
              (case drop (length word - 1) cs of [] \<Rightarrow> None | x # _ \<Rightarrow> Some x)
      then repl @ re_sub_word u word repl (Some (last word)) (drop (length word - 1) cs)
      else c # re_sub_word u word repl (Some c) cs)"

section \<open>Greek special glyphs\<close>

text \<open>The two dictionaries of \<open>convert_iota_subscript_to_adscript\<close>, in source order.\<close>

definition lowercase_map :: "(str \<times> str) list" where
  "lowercase_map =
   [([0x1F80], [0x3B1, 0x3B9]), ([0x1F81], [0x3B1, 0x3B9]), ([0x1F82], [0x3B1, 0x3B9]),
    ([0x1F83], [0x3B1, 0x3B9]), ([0x1F84], [0x3B1, 0x3B9]), ([0x1F85], [0x3B1, 0x3B9]),
    ([0x1F86], [0x3B1, 0x3B9]), ([0x1F87], [0x3B1, 0x3B9]),
    ([0x1FB0], [0x3B1]), ([0x1FB1], [0x3B1]),
    ([0x1FB3], [0x3B1, 0x3B9]), ([0x1FB4], [0x3B1, 0x3B9]),
    ([0x1FB6], [0x3B1]),
    ([0x1FB7], [0x3B1, 0x3B9]),
    ([0x1F90], [0x3B7, 0x3B9]), ([0x1F91], [0x3B7, 0x3B9]), ([0x1F92], [0x3B7, 0x3B9]),
    ([0x1F93], [0x3B7, 0x3B9]), ([0x1F94], [0x3B7, 0x3B9]), ([0x1F95], [0x3B7, 0x3B9]),
    ([0x1F96], [0x3B7, 0x3B9]), ([0x1F97], [0x3B7, 0x3B9]),
    ([0x1FC3], [0x3B7, 0x3B9]), ([0x1FC4], [0x3B7, 0x3B9]),
    ([0x1FC6], [0x3B7]),
    ([0x1FC7], [0x3B7, 0x3B9]),
    ([0x1FA0], [0x3C9, 0x3B9]), ([0x1FA1], [0x3C9, 0x3B9]), ([0x1FA2], [0x3C9, 0x3B9]),
    ([0x1FA3], [0x3C9, 0x3B9]), ([0x1FA4], [0x3C9, 0x3B9]), ([0x1FA5], [0x3C9, 0x3B9]),
    ([0x1FA6], [0x3C9, 0x3B9]), ([0x1FA7], [0x3C9, 0x3B9]),
    ([0x1FF3], [0x3C9, 0x3B9]), ([0x1FF4], [0x3C9, 0x3B9]),
    ([0x1FF6], [0x3C9]),
    ([0x1FF7], [0x3C9, 0x3B9])]"

definition uppercase_map :: "(str \<times> str) list" where
  "uppercase_map =
   [([0x1F88], [0x391, 0x399]), ([0x1F89], [0x391, 0x399]), ([0x1F8A], [0x391, 0x399]),
    ([0x1F8B], [0x391, 0x399]), ([0x1F8C], [0x391, 0x399]), ([0x1F8D], [0x391, 0x399]),
    ([0x1F8E], [0x391, 0x399]), ([0x1F8F], [0x391, 0x399]),
    ([0x1FBC], [0x391, 0x399]),
    ([0x1F98], [0x397, 0x399]), ([0x1F99], [0x397, 0x399]), ([0x1F9A], [0x397, 0x399]),
    ([0x1F9B], [0x397, 0x399]), ([0x1F9C], [0x397, 0x399]), ([0x1F9D], [0x397, 0x399]),
    ([0x1F9E], [0x397, 0x399]), ([0x1F9F], [0x397, 0x399]),
    ([0x1FCC], [0x397, 0x399]),
    ([0x1FA8], [0x3A9, 0x399]), ([0x1FA9], [0x3A9, 0x399]), ([0x1FAA], [0x3A9, 0x399]),
    ([0x1FAB], [0x3A9, 0x399]), ([0x1FAC], [0x3A9, 0x399]), ([0x1FAD], [0x3A9, 0x399]),
    ([0x1FAE], [0x3A9, 0x399]), ([0x1FAF], [0x3A9, 0x399]),
    ([0x1FFC], [0x3A9, 0x399])]"

definition convert_iota_subscript_to_adscript :: "str \<Rightarrow> str" where
  "convert_iota_subscript_to_adscript s = replace_all uppercase_map (replace_all lowercase_map s)"

section \<open>Word separation\<close>

definition apply_scriptio_continua :: "str \<Rightarrow> str" where
  "apply_scriptio_continua s = re_sub_runs (\<lambda>c. c = 0x20 \<or> c = 0x09) (\<lambda>m. []) s"

definition apply_interpunct :: "str \<Rightarrow> str" where
  "apply_interpunct s = re_sub_runs (\<lambda>c. c = 0x20) (\<lambda>m. [0xB7]) (py_strip s)"

definition apply_word_separator :: "str \<Rightarrow> str \<Rightarrow> py_error + str" where
  "apply_word_separator s separator = re_sub_spaces separator (py_strip s)"

section \<open>Language configuration\<close>

text \<open>
  The fields of \<open>LanguageConfig\<close> and of its \<open>script\<close> that the module reads. The
  dictionary \<open>normalize_chars\<close> is the list of its items in insertion order (empty for
  \<open>None\<close> and for an empty dictionary, which the code does not tell apart); the field
  \<open>case\<close> is a string. The registry \<open>get_language_config\<close> is a parameter of the
  functions that look a language up.
\<close>

record script_config =
  script_case :: string
  has_accents :: bool
  normalize_chars :: "(str \<times> str) list"
  char_v_for_u :: bool
  scriptio_continua_default :: bool
  word_separator :: "str option"

record language_config =
  native_name :: str
  script :: script_config

section \<open>Authentic script transformation\<close>

definition greek_monotonic_map :: "(str \<times> str) list" where
  "greek_monotonic_map =
   [([0x386], [0x391]), ([0x388], [0x395]), ([0x389], [0x397]), ([0x38A], [0x399]),
    ([0x38C], [0x39F]), ([0x38E], [0x3A5]), ([0x38F], [0x3A9]), ([0x3AA], [0x399]),
    ([0x3AB], [0x3A5])]"

definition remove_accents :: "ucd \<Rightarrow> str \<Rightarrow> str" where
  "remove_accents u s =
     (let result = replace_all greek_monotonic_map s;
          nfd_form = nfd u result;
          without_accents = filter (\<lambda>c. category u c \<noteq> ''Mn'') nfd_form
      in nfc u without_accents)"

definition apply_script_transform_with_config ::
    "ucd \<Rightarrow> str \<Rightarrow> language_config \<Rightarrow> py_error + str" where
  "apply_script_transform_with_config u s config =
     (if s = [] then Inr s
      else
        let sc = script config;
            result = s;
            result = (if normalize_chars sc \<noteq> [] then replace_all (normalize_chars sc) result
                      else result);
            result = (if \<not> has_accents sc then remove_accents u result else result);
            result = (if script_case sc = ''upper'' then py_upper u result
                      else if script_case sc = ''lower'' then py_lower u result
                      else result);
            result = (if char_v_for_u sc \<and> normalize_chars sc = []
                      then py_replace [0x75] [0x76] (py_replace [0x55] [0x56] result)
                      else result);
            result = (if scriptio_continua_default sc \<and> word_separator sc = None
                      then apply_scriptio_continua result else result)
        in (case word_separator sc of
              None \<Rightarrow> Inr result
            | Some separator \<Rightarrow>
                if separator \<noteq> [] then apply_word_separator result separator else Inr result))"

definition apply_script_transform ::
    "ucd \<Rightarrow> (string \<Rightarrow> language_config) \<Rightarrow> str \<Rightarrow> string \<Rightarrow> py_error + str" where
  "apply_script_transform u get_language_config s language_code =
     apply_script_transform_with_config u s (get_language_config language_code)"

section \<open>Nomina sacra\<close>

text \<open>The dictionary in source order; U+035E is the combining overline.\<close>

definition nomina_sacra :: "(str \<times> str) list" where
  "nomina_sacra =
   [([0x398, 0x395, 0x39F, 0x3A3],
     [0x398, 0x35E, 0x3A3, 0x35E]),
    ([0x398, 0x395, 0x39F, 0x3A5],
     [0x398, 0x35E, 0x3A5, 0x35E]),
    ([0x398, 0x395, 0x3A9, 0x39D],
     [0x398, 0x35E, 0x39D, 0x35E]),
    ([0x39A, 0x3A5, 0x3A1, 0x399, 0x39F, 0x3A3],
     [0x39A, 0x35E, 0x3A3, 0x35E]),
    ([0x39A, 0x3A5, 0x3A1, 0x399, 0x39F, 0x3A5],
     [0x39A, 0x35E, 0x3A5, 0x35E]),
    ([0x39A, 0x3A5, 0x3A1, 0x399, 0x3A9, 0x39D],
     [0x39A, 0x35E, 0x39D, 0x35E]),
    ([0x399, 0x397, 0x3A3, 0x39F, 0x3A5, 0x3A3],
     [0x399, 0x35E, 0x3A3, 0x35E]),
    ([0x399, 0x397, 0x3A3, 0x39F, 0x3A5],
     [0x399, 0x35E, 0x3A5, 0x35E]),
    ([0x3A7, 0x3A1, 0x399, 0x3A3, 0x3A4, 0x39F, 0x3A3],
     [0x3A7, 0x35E, 0x3A3, 0x35E]),
    ([0x3A7, 0x3A1, 0x399, 0x3A3, 0x3A4, 0x39F, 0x3A5],
     [0x3A7, 0x35E, 0x3A5, 0x35E]),
    ([0x3A0, 0x39D, 0x395, 0x3A5, 0x39C, 0x391],
     [0x3A0, 0x35E, 0x39D, 0x35E, 0x391, 0x35E]),
    ([0x3A0, 0x39D, 0x395, 0x3A5, 0x39C, 0x391, 0x3A4, 0x39F, 0x3A3],
     [0x3A0, 0x35E, 0x39D, 0x35E, 0x3A3, 0x35E]),
    ([0x3A5, 0x399, 0x39F, 0x3A3],
     [0x3A5, 0x35E, 0x3A3, 0x35E]),
    ([0x3A5, 0x399, 0x39F, 0x3A5],
     [0x3A5, 0x35E, 0x3A5, 0x35E]),
    ([0x3A0, 0x391, 0x3A4, 0x397, 0x3A1],
     [0x3A0, 0x35E, 0x397, 0x35E, 0x3A1, 0x35E]),
    ([0x3A0, 0x391, 0x3A4, 0x3A1, 0x39F, 0x3A3],
     [0x3A0, 0x35E, 0x3A1, 0x35E, 0x3A3, 0x35E]),
    ([0x39C, 0x397, 0x3A4, 0x397, 0x3A1],
     [0x39C, 0x35E, 0x397, 0x35E, 0x3A1, 0x35E]),
    ([0x39C, 0x397, 0x3A4, 0x3A1, 0x39F, 0x3A3],
     [0x39C, 0x35E, 0x3A1, 0x35E, 0x3A3, 0x35E]),
    ([0x391, 0x39D, 0x398, 0x3A1, 0x3A9, 0x3A0, 0x39F, 0x3A3],
     [0x391, 0x35E, 0x39D, 0x35E, 0x39F, 0x35E, 0x3A3, 0x35E]),
    ([0x391, 0x39D, 0x398, 0x3A1, 0x3A9, 0x3A0, 0x39F, 0x3A5],
     [0x391, 0x35E, 0x39D, 0x35E, 0x39F, 0x35E, 0x3A5, 0x35E]),
    ([0x39F, 0x3A5, 0x3A1, 0x391, 0x39D, 0x39F, 0x3A3],
     [0x39F, 0x35E, 0x3A5, 0x35E, 0x39D, 0x35E, 0x3A3, 0x35E]),
    ([0x39F, 0x3A5, 0x3A1, 0x391, 0x39D, 0x39F, 0x3A5],
     [0x39F, 0x35E, 0x3A5, 0x35E, 0x39D, 0x35E, 0x3A5, 0x35E]),
    ([0x399, 0x3A3, 0x3A1, 0x391, 0x397, 0x39B],
     [0x399, 0x35E, 0x397, 0x35E, 0x39B, 0x35E]),
    ([0x394, 0x391, 0x3A5, 0x399, 0x394],
     [0x394, 0x35E, 0x391, 0x35E, 0x394, 0x35E]),
    ([0x399, 0x395, 0x3A1, 0x39F, 0x3A5, 0x3A3, 0x391, 0x39B, 0x397, 0x39C],
     [0x399, 0x35E, 0x39B, 0x35E, 0x397, 0x35E, 0x39C, 0x35E]),
    ([0x3A3, 0x3A4, 0x391, 0x3A5, 0x3A1, 0x39F, 0x3A3],
     [0x3A3, 0x35E, 0x3A4, 0x35E, 0x3A3, 0x35E])]"

definition apply_nomina_sacra :: "ucd \<Rightarrow> str \<Rightarrow> string \<Rightarrow> str" where
  "apply_nomina_sacra u s language_code =
     (if language_code \<noteq> ''grc-koi'' then s
      else foldl (\<lambda>result (full_word, abbreviated).
                    re_sub_word u full_word abbreviated None result)
             s (sort_key (\<lambda>(full_word, abbreviated). - int (length full_word)) nomina_sacra))"

section \<open>Modern punctuation\<close>

definition modern_punctuation :: "(str \<times> str) list" where
  "modern_punctuation =
   [([0x3F], []), ([0x21], []), ([0x2C], [0x20]), ([0x3B], [0x20]), ([0x3A], [0x20]),
    ([0x2E], [0x20]), ([0x22], []), ([0x27], []), ([0x2014], [0x20]), ([0x2013], [0x20]),
    ([0x28], []), ([0x29], []), ([0x5B], []), ([0x5D], [])]"

definition remove_modern_punctuation :: "str \<Rightarrow> string \<Rightarrow> str" where
  "remove_modern_punctuation s language_code =
     py_strip (re_sub_runs (\<lambda>c. c = 0x20) (\<lambda>m. [0x20]) (replace_all modern_punctuation s))"

section \<open>The orchestrator\<close>

text \<open>
  The keyword arguments of \<open>apply_script_preferences\<close> with their defaults, and the
  fields of a \<open>ScriptDisplayMode\<close> object that the function reads.
\<close>

record script_flags =
  authentic_mode :: bool
  use_scriptio_continua :: bool
  use_interpuncts :: bool
  use_iota_adscript :: bool
  use_nomina_sacra :: bool
  remove_punctuation :: bool

definition default_flags :: script_flags where
  "default_flags =
     \<lparr>authentic_mode = False, use_scriptio_continua = False, use_interpuncts = False,
      use_iota_adscript = True, use_nomina_sacra = False, remove_punctuation = False\<rparr>"

record script_display_mode =
  pref_use_scriptio_continua :: bool
  pref_use_interpuncts :: bool
  pref_use_iota_adscript :: bool
  pref_use_nomina_sacra :: bool
  pref_remove_modern_punctuation :: bool

definition apply_script_preferences ::
    "ucd \<Rightarrow> (string \<Rightarrow> language_config) \<Rightarrow> str \<Rightarrow> string \<Rightarrow> script_display_mode option \<Rightarrow>
     script_flags \<Rightarrow> py_error + str" where
  "apply_script_preferences u get_language_config s language_code preferences flags =
     (if s = [] then Inr s
      else
        let flags =
              (case preferences of
                 None \<Rightarrow> flags
               | Some p \<Rightarrow>
                   flags\<lparr>use_scriptio_continua := pref_use_scriptio_continua p,
                         use_interpuncts := pref_use_interpuncts p,
                         use_iota_adscript := pref_use_iota_adscript p,
                         use_nomina_sacra := pref_use_nomina_sacra p,
                         remove_punctuation := pref_remove_modern_punctuation p\<rparr>)
        in (case (if authentic_mode flags
                  then apply_script_transform u get_language_config s language_code
                  else Inr s) of
              Inl e \<Rightarrow> Inl e
            | Inr result \<Rightarrow>
                let result =
                      (if use_iota_adscript flags
                          \<and> (language_code = ''grc'' \<or> language_code = ''grc-koi'')
                       then convert_iota_subscript_to_adscript result else result);
                    result =
                      (if remove_punctuation flags
                       then remove_modern_punctuation result language_code else result);
                    result =
                      (if use_nomina_sacra flags \<and> language_code = ''grc-koi''
                       then apply_nomina_sacra u result language_code else result)
                in Inr (if use_scriptio_continua flags then apply_scriptio_continua result
                        else if use_interpuncts flags then apply_interpunct result
                        else result)))"

section \<open>Authenticity check\<close>

text \<open>
  \<open>upper_ratio\<close> is a quotient of two lengths. Python computes it in floating point and
  compares it with the double nearest to 0.8; for strings shorter than \<open>2 ^ 50\<close>
  characters that comparison has the same outcome as the exact one, which is the one
  written here.
\<close>

definition upper_ratio :: "ucd \<Rightarrow> str \<Rightarrow> real" where
  "upper_ratio u s =
     real (length (filter (isupper u) s)) / real (max 1 (length (filter (isalpha u) s)))"

definition validate_script_authenticity ::
    "ucd \<Rightarrow> (string \<Rightarrow> language_config) \<Rightarrow> str \<Rightarrow> string \<Rightarrow> bool" where
  "validate_script_authenticity u get_language_config s language_code =
     (if s = [] then True
      else
        let config = get_language_config language_code
        in if script_case (script config) = ''upper'' \<and> upper_ratio u s < 0.8 then False
           else if char_v_for_u (script config) \<and> (0x55 \<in> set s \<or> 0x75 \<in> set s) then False
           else True)"

section \<open>A fragment of the Unicode 14 database\<close>

text \<open>
  The tables of Unicode 14.0 for Basic Latin (U+0000 to U+007F), the Combining
  Diacritical Marks (U+0300 to U+036F), Greek and Coptic (U+0370 to U+03FF) and Greek
  Extended (U+1F00 to U+1FFF), with the characters outside these blocks that they
  decompose to or that the examples use (U+00A8, U+00B4, U+00B7, U+02B9, U+2013, U+2014,
  U+2160). It is used to run the functions on concrete Greek and Latin text; on a
  character outside the fragment it answers as for an unassigned code point. Every table
  is written as a search by row of the code chart and then by character.
\<close>

definition decomposition14 :: "codepoint \<Rightarrow> str" where
  "decomposition14 c =
     (if c < 0x385 then
       (if c = 0x340 then [0x300] else if c = 0x341 then [0x301] else
        if c = 0x343 then [0x313] else if c = 0x344 then [0x308, 0x301] else
        if c = 0x374 then [0x2B9] else if c = 0x37E then [0x3B] else [c])
      else if c < 0x390 then
       (if c = 0x385 then [0xA8, 0x301] else if c = 0x386 then [0x391, 0x301] else
        if c = 0x387 then [0xB7] else if c = 0x388 then [0x395, 0x301] else
        if c = 0x389 then [0x397, 0x301] else if c = 0x38A then [0x399, 0x301] else
        if c = 0x38C then [0x39F, 0x301] else if c = 0x38E then [0x3A5, 0x301] else
        if c = 0x38F then [0x3A9, 0x301] else [c])
      else if c < 0x3B0 then
       (if c = 0x390 then [0x3B9, 0x308, 0x301] else if c = 0x3AA then [0x399, 0x308] else
        if c = 0x3AB then [0x3A5, 0x308] else if c = 0x3AC then [0x3B1, 0x301] else
        if c = 0x3AD then [0x3B5, 0x301] else if c = 0x3AE then [0x3B7, 0x301] else
        if c = 0x3AF then [0x3B9, 0x301] else [c])
      else if c < 0x3D3 then
       (if c = 0x3B0 then [0x3C5, 0x308, 0x301] else if c = 0x3CA then [0x3B9, 0x308] else
        if c = 0x3CB then [0x3C5, 0x308] else if c = 0x3CC then [0x3BF, 0x301] else
        if c = 0x3CD then [0x3C5, 0x301] else if c = 0x3CE then [0x3C9, 0x301] else [c])
      else if c < 0x1F00 then
       (if c = 0x3D3 then [0x3D2, 0x301] else if c = 0x3D4 then [0x3D2, 0x308] else [c])
      else if c < 0x1F10 then
       (if c = 0x1F00 then [0x3B1, 0x313] else if c = 0x1F01 then [0x3B1, 0x314] else
        if c = 0x1F02 then [0x3B1, 0x313, 0x300] else
        if c = 0x1F03 then [0x3B1, 0x314, 0x300] else
        if c = 0x1F04 then [0x3B1, 0x313, 0x301] else
        if c = 0x1F05 then [0x3B1, 0x314, 0x301] else
        if c = 0x1F06 then [0x3B1, 0x313, 0x342] else
        if c = 0x1F07 then [0x3B1, 0x314, 0x342] else if c = 0x1F08 then [0x391, 0x313] else
        if c = 0x1F09 then [0x391, 0x314] else if c = 0x1F0A then [0x391, 0x313, 0x300] else
        if c = 0x1F0B then [0x391, 0x314, 0x300] else
        if c = 0x1F0C then [0x391, 0x313, 0x301] else
        if c = 0x1F0D then [0x391, 0x314, 0x301] else
        if c = 0x1F0E then [0x391, 0x313, 0x342] else
        if c = 0x1F0F then [0x391, 0x314, 0x342] else [c])
      else if c < 0x1F20 then
       (if c = 0x1F10 then [0x3B5, 0x313] else if c = 0x1F11 then [0x3B5, 0x314] else
        if c = 0x1F12 then [0x3B5, 0x313, 0x300] else
        if c = 0x1F13 then [0x3B5, 0x314, 0x300] else
        if c = 0x1F14 then [0x3B5, 0x313, 0x301] else
        if c = 0x1F15 then [0x3B5, 0x314, 0x301] else if c = 0x1F18 then [0x395, 0x313] else
        if c = 0x1F19 then [0x395, 0x314] else if c = 0x1F1A then [0x395, 0x313, 0x300] else
        if c = 0x1F1B then [0x395, 0x314, 0x300] else
        if c = 0x1F1C then [0x395, 0x313, 0x301] else
        if c = 0x1F1D then [0x395, 0x314, 0x301] else [c])
      else if c < 0x1F30 then
       (if c = 0x1F20 then [0x3B7, 0x313] else if c = 0x1F21 then [0x3B7, 0x314] else
        if c = 0x1F22 then [0x3B7, 0x313, 0x300] else
        if c = 0x1F23 then [0x3B7, 0x314, 0x300] else
        if c = 0x1F24 then [0x3B7, 0x313, 0x301] else
        if c = 0x1F25 then [0x3B7, 0x314, 0x301] else
        if c = 0x1F26 then [0x3B7, 0x313, 0x342] else
        if c = 0x1F27 then [0x3B7, 0x314, 0x342] else if c = 0x1F28 then [0x397, 0x313] else
        if c = 0x1F29 then [0x397, 0x314] else if c = 0x1F2A then [0x397, 0x313, 0x300] else
        if c = 0x1F2B then [0x397, 0x314, 0x300] else
        if c = 0x1F2C then [0x397, 0x313, 0x301] else
        if c = 0x1F2D then [0x397, 0x314, 0x301] else
        if c = 0x1F2E then [0x397, 0x313, 0x342] else
        if c = 0x1F2F then [0x397, 0x314, 0x342] else [c])
      else if c < 0x1F40 then
       (if c = 0x1F30 then [0x3B9, 0x313] else if c = 0x1F31 then [0x3B9, 0x314] else
        if c = 0x1F32 then [0x3B9, 0x313, 0x300] else
        if c = 0x1F33 then [0x3B9, 0x314, 0x300] else
        if c = 0x1F34 then [0x3B9, 0x313, 0x301] else
        if c = 0x1F35 then [0x3B9, 0x314, 0x301] else
        if c = 0x1F36 then [0x3B9, 0x313, 0x342] else
        if c = 0x1F37 then [0x3B9, 0x314, 0x342] else if c = 0x1F38 then [0x399, 0x313] else
        if c = 0x1F39 then [0x399, 0x314] else if c = 0x1F3A then [0x399, 0x313, 0x300] else
        if c = 0x1F3B then [0x399, 0x314, 0x300] else
        if c = 0x1F3C then [0x399, 0x313, 0x301] else
        if c = 0x1F3D then [0x399, 0x314, 0x301] else
        if c = 0x1F3E then [0x399, 0x313, 0x342] else
        if c = 0x1F3F then [0x399, 0x314, 0x342] else [c])
      else if c < 0x1F50 then
       (if c = 0x1F40 then [0x3BF, 0x313] else if c = 0x1F41 then [0x3BF, 0x314] else
        if c = 0x1F42 then [0x3BF, 0x313, 0x300] else
        if c = 0x1F43 then [0x3BF, 0x314, 0x300] else
        if c = 0x1F44 then [0x3BF, 0x313, 0x301] else
        if c = 0x1F45 then [0x3BF, 0x314, 0x301] else if c = 0x1F48 then [0x39F, 0x313] else
        if c = 0x1F49 then [0x39F, 0x314] else if c = 0x1F4A then [0x39F, 0x313, 0x300] else
        if c = 0x1F4B then [0x39F, 0x314, 0x300] else
        if c = 0x1F4C then [0x39F, 0x313, 0x301] else
        if c = 0x1F4D then [0x39F, 0x314, 0x301] else [c])
      else if c < 0x1F60 then
       (if c = 0x1F50 then [0x3C5, 0x313] else if c = 0x1F51 then [0x3C5, 0x314] else
        if c = 0x1F52 then [0x3C5, 0x313, 0x300] else
        if c = 0x1F53 then [0x3C5, 0x314, 0x300] else
        if c = 0x1F54 then [0x3C5, 0x313, 0x301] else
        if c = 0x1F55 then [0x3C5, 0x314, 0x301] else
        if c = 0x1F56 then [0x3C5, 0x313, 0x342] else
        if c = 0x1F57 then [0x3C5, 0x314, 0x342] else if c = 0x1F59 then [0x3A5, 0x314] else
        if c = 0x1F5B then [0x3A5, 0x314, 0x300] else
        if c = 0x1F5D then [0x3A5, 0x314, 0x301] else
        if c = 0x1F5F then [0x3A5, 0x314, 0x342] else [c])
      else if c < 0x1F70 then
       (if c = 0x1F60 then [0x3C9, 0x313] else if c = 0x1F61 then [0x3C9, 0x314] else
        if c = 0x1F62 then [0x3C9, 0x313, 0x300] else
        if c = 0x1F63 then [0x3C9, 0x314, 0x300] else
        if c = 0x1F64 then [0x3C9, 0x313, 0x301] else
        if c = 0x1F65 then [0x3C9, 0x314, 0x301] else
        if c = 0x1F66 then [0x3C9, 0x313, 0x342] else
        if c = 0x1F67 then [0x3C9, 0x314, 0x342] else if c = 0x1F68 then [0x3A9, 0x313] else
        if c = 0x1F69 then [0x3A9, 0x314] else if c = 0x1F6A then [0x3A9, 0x313, 0x300] else
        if c = 0x1F6B then [0x3A9, 0x314, 0x300] else
        if c = 0x1F6C then [0x3A9, 0x313, 0x301] else
        if c = 0x1F6D then [0x3A9, 0x314, 0x301] else
        if c = 0x1F6E then [0x3A9, 0x313, 0x342] else
        if c = 0x1F6F then [0x3A9, 0x314, 0x342] else [c])
      else if c < 0x1F80 then
       (if c = 0x1F70 then [0x3B1, 0x300] else if c = 0x1F71 then [0x3B1, 0x301] else
        if c = 0x1F72 then [0x3B5, 0x300] else if c = 0x1F73 then [0x3B5, 0x301] else
        if c = 0x1F74 then [0x3B7, 0x300] else if c = 0x1F75 then [0x3B7, 0x301] else
        if c = 0x1F76 then [0x3B9, 0x300] else if c = 0x1F77 then [0x3B9, 0x301] else
        if c = 0x1F78 then [0x3BF, 0x300] else if c = 0x1F79 then [0x3BF, 0x301] else
        if c = 0x1F7A then [0x3C5, 0x300] else if c = 0x1F7B then [0x3C5, 0x301] else
        if c = 0x1F7C then [0x3C9, 0x300] else if c = 0x1F7D then [0x3C9, 0x301] else [c])
      else if c < 0x1F90 then
       (if c = 0x1F80 then [0x3B1, 0x313, 0x345] else
        if c = 0x1F81 then [0x3B1, 0x314, 0x345] else
        if c = 0x1F82 then [0x3B1, 0x313, 0x300, 0x345] else
        if c = 0x1F83 then [0x3B1, 0x314, 0x300, 0x345] else
        if c = 0x1F84 then [0x3B1, 0x313, 0x301, 0x345] else
        if c = 0x1F85 then [0x3B1, 0x314, 0x301, 0x345] else
        if c = 0x1F86 then [0x3B1, 0x313, 0x342, 0x345] else
        if c = 0x1F87 then [0x3B1, 0x314, 0x342, 0x345] else
        if c = 0x1F88 then [0x391, 0x313, 0x345] else
        if c = 0x1F89 then [0x391, 0x314, 0x345] else
        if c = 0x1F8A then [0x391, 0x313, 0x300, 0x345] else
        if c = 0x1F8B then [0x391, 0x314, 0x300, 0x345] else
        if c = 0x1F8C then [0x391, 0x313, 0x301, 0x345] else
        if c = 0x1F8D then [0x391, 0x314, 0x301, 0x345] else
        if c = 0x1F8E then [0x391, 0x313, 0x342, 0x345] else
        if c = 0x1F8F then [0x391, 0x314, 0x342, 0x345] else [c])
      else if c < 0x1FA0 then
       (if c = 0x1F90 then [0x3B7, 0x313, 0x345] else
        if c = 0x1F91 then [0x3B7, 0x314, 0x345] else
        if c = 0x1F92 then [0x3B7, 0x313, 0x300, 0x345] else
        if c = 0x1F93 then [0x3B7, 0x314, 0x300, 0x345] else
        if c = 0x1F94 then [0x3B7, 0x313, 0x301, 0x345] else
        if c = 0x1F95 then [0x3B7, 0x314, 0x301, 0x345] else
        if c = 0x1F96 then [0x3B7, 0x313, 0x342, 0x345] else
        if c = 0x1F97 then [0x3B7, 0x314, 0x342, 0x345] else
        if c = 0x1F98 then [0x397, 0x313, 0x345] else
        if c = 0x1F99 then [0x397, 0x314, 0x345] else
        if c = 0x1F9A then [0x397, 0x313, 0x300, 0x345] else
        if c = 0x1F9B then [0x397, 0x314, 0x300, 0x345] else
        if c = 0x1F9C then [0x397, 0x313, 0x301, 0x345] else
        if c = 0x1F9D then [0x397, 0x314, 0x301, 0x345] else
        if c = 0x1F9E then [0x397, 0x313, 0x342, 0x345] else
        if c = 0x1F9F then [0x397, 0x314, 0x342, 0x345] else [c])
      else if c < 0x1FB0 then
       (if c = 0x1FA0 then [0x3C9, 0x313, 0x345] else
        if c = 0x1FA1 then [0x3C9, 0x314, 0x345] else
        if c = 0x1FA2 then [0x3C9, 0x313, 0x300, 0x345] else
        if c = 0x1FA3 then [0x3C9, 0x314, 0x300, 0x345] else
        if c = 0x1FA4 then [0x3C9, 0x313, 0x301, 0x345] else
        if c = 0x1FA5 then [0x3C9, 0x314, 0x301, 0x345] else
        if c = 0x1FA6 then [0x3C9, 0x313, 0x342, 0x345] else
        if c = 0x1FA7 then [0x3C9, 0x314, 0x342, 0x345] else
        if c = 0x1FA8 then [0x3A9, 0x313, 0x345] else
        if c = 0x1FA9 then [0x3A9, 0x314, 0x345] else
        if c = 0x1FAA then [0x3A9, 0x313, 0x300, 0x345] else
        if c = 0x1FAB then [0x3A9, 0x314, 0x300, 0x345] else
        if c = 0x1FAC then [0x3A9, 0x313, 0x301, 0x345] else
        if c = 0x1FAD then [0x3A9, 0x314, 0x301, 0x345] else
        if c = 0x1FAE then [0x3A9, 0x313, 0x342, 0x345] else
        if c = 0x1FAF then [0x3A9, 0x314, 0x342, 0x345] else [c])
      else if c < 0x1FC1 then
       (if c = 0x1FB0 then [0x3B1, 0x306] else if c = 0x1FB1 then [0x3B1, 0x304] else
        if c = 0x1FB2 then [0x3B1, 0x300, 0x345] else if c = 0x1FB3 then [0x3B1, 0x345] else
        if c = 0x1FB4 then [0x3B1, 0x301, 0x345] else if c = 0x1FB6 then [0x3B1, 0x342] else
        if c = 0x1FB7 then [0x3B1, 0x342, 0x345] else if c = 0x1FB8 then [0x391, 0x306] else
        if c = 0x1FB9 then [0x391, 0x304] else if c = 0x1FBA then [0x391, 0x300] else
        if c = 0x1FBB then [0x391, 0x301] else if c = 0x1FBC then [0x391, 0x345] else
        if c = 0x1FBE then [0x3B9] else [c])
      else if c < 0x1FD0 then
       (if c = 0x1FC1 then [0xA8, 0x342] else if c = 0x1FC2 then [0x3B7, 0x300, 0x345] else
        if c = 0x1FC3 then [0x3B7, 0x345] else if c = 0x1FC4 then [0x3B7, 0x301, 0x345] else
        if c = 0x1FC6 then [0x3B7, 0x342] else if c = 0x1FC7 then [0x3B7, 0x342, 0x345] else
        if c = 0x1FC8 then [0x395, 0x300] else if c = 0x1FC9 then [0x395, 0x301] else
        if c = 0x1FCA then [0x397, 0x300] else if c = 0x1FCB then [0x397, 0x301] else
        if c = 0x1FCC then [0x397, 0x345] else if c = 0x1FCD then [0x1FBF, 0x300] else
        if c = 0x1FCE then [0x1FBF, 0x301] else if c = 0x1FCF then [0x1FBF, 0x342] else [c])
      else if c < 0x1FE0 then
       (if c = 0x1FD0 then [0x3B9, 0x306] else if c = 0x1FD1 then [0x3B9, 0x304] else
        if c = 0x1FD2 then [0x3B9, 0x308, 0x300] else
        if c = 0x1FD3 then [0x3B9, 0x308, 0x301] else if c = 0x1FD6 then [0x3B9, 0x342] else
        if c = 0x1FD7 then [0x3B9, 0x308, 0x342] else if c = 0x1FD8 then [0x399, 0x306] else
        if c = 0x1FD9 then [0x399, 0x304] else if c = 0x1FDA then [0x399, 0x300] else
        if c = 0x1FDB then [0x399, 0x301] else if c = 0x1FDD then [0x1FFE, 0x300] else
        if c = 0x1FDE then [0x1FFE, 0x301] else if c = 0x1FDF then [0x1FFE, 0x342] else [c])
      else if c < 0x1FF2 then
       (if c = 0x1FE0 then [0x3C5, 0x306] else if c = 0x1FE1 then [0x3C5, 0x304] else
        if c = 0x1FE2 then [0x3C5, 0x308, 0x300] else
        if c = 0x1FE3 then [0x3C5, 0x308, 0x301] else if c = 0x1FE4 then [0x3C1, 0x313] else
        if c = 0x1FE5 then [0x3C1, 0x314] else if c = 0x1FE6 then [0x3C5, 0x342] else
        if c = 0x1FE7 then [0x3C5, 0x308, 0x342] else if c = 0x1FE8 then [0x3A5, 0x306] else
        if c = 0x1FE9 then [0x3A5, 0x304] else if c = 0x1FEA then [0x3A5, 0x300] else
        if c = 0x1FEB then [0x3A5, 0x301] else if c = 0x1FEC then [0x3A1, 0x314] else
        if c = 0x1FED then [0xA8, 0x300] else if c = 0x1FEE then [0xA8, 0x301] else
        if c = 0x1FEF then [0x60] else [c])
      else
       (if c = 0x1FF2 then [0x3C9, 0x300, 0x345] else if c = 0x1FF3 then [0x3C9, 0x345] else
        if c = 0x1FF4 then [0x3C9, 0x301, 0x345] else if c = 0x1FF6 then [0x3C9, 0x342] else
        if c = 0x1FF7 then [0x3C9, 0x342, 0x345] else if c = 0x1FF8 then [0x39F, 0x300] else
        if c = 0x1FF9 then [0x39F, 0x301] else if c = 0x1FFA then [0x3A9, 0x300] else
        if c = 0x1FFB then [0x3A9, 0x301] else if c = 0x1FFC then [0x3A9, 0x345] else
        if c = 0x1FFD then [0xB4] else [c]))"

definition combining14 :: "codepoint \<Rightarrow> nat" where
  "combining14 c =
     (if c < 0x345 then
       (if 0x300 \<le> c \<and> c \<le> 0x314 then 230 else if c = 0x315 then 232 else
        if 0x316 \<le> c \<and> c \<le> 0x319 then 220 else if c = 0x31A then 232 else
        if c = 0x31B then 216 else if 0x31C \<le> c \<and> c \<le> 0x320 then 220 else
        if 0x321 \<le> c \<and> c \<le> 0x322 then 202 else
        if 0x323 \<le> c \<and> c \<le> 0x326 then 220 else
        if 0x327 \<le> c \<and> c \<le> 0x328 then 202 else
        if 0x329 \<le> c \<and> c \<le> 0x333 then 220 else
        if 0x334 \<le> c \<and> c \<le> 0x338 then 1 else
        if 0x339 \<le> c \<and> c \<le> 0x33C then 220 else
        if 0x33D \<le> c \<and> c \<le> 0x344 then 230 else 0)
      else
       (if c = 0x345 then 240 else if c = 0x346 then 230 else
        if 0x347 \<le> c \<and> c \<le> 0x349 then 220 else
        if 0x34A \<le> c \<and> c \<le> 0x34C then 230 else
        if 0x34D \<le> c \<and> c \<le> 0x34E then 220 else
        if 0x350 \<le> c \<and> c \<le> 0x352 then 230 else
        if 0x353 \<le> c \<and> c \<le> 0x356 then 220 else if c = 0x357 then 230 else
        if c = 0x358 then 232 else if 0x359 \<le> c \<and> c \<le> 0x35A then 220 else
        if c = 0x35B then 230 else if c = 0x35C then 233 else
        if 0x35D \<le> c \<and> c \<le> 0x35E then 234 else if c = 0x35F then 233 else
        if 0x360 \<le> c \<and> c \<le> 0x361 then 234 else if c = 0x362 then 233 else
        if 0x363 \<le> c \<and> c \<le> 0x36F then 230 else 0))"

definition composition14 :: "codepoint \<Rightarrow> codepoint \<Rightarrow> codepoint option" where
  "composition14 a b =
     (if a < 0x3A1 then
       (if a = 0xA8 then (if b = 0x300 then Some 0x1FED else if b = 0x301 then Some 0x385 else
        if b = 0x342 then Some 0x1FC1 else None) else if a = 0x391 then
        (if b = 0x300 then Some 0x1FBA else if b = 0x301 then Some 0x386 else
        if b = 0x304 then Some 0x1FB9 else if b = 0x306 then Some 0x1FB8 else
        if b = 0x313 then Some 0x1F08 else if b = 0x314 then Some 0x1F09 else
        if b = 0x345 then Some 0x1FBC else None) else if a = 0x395 then
        (if b = 0x300 then Some 0x1FC8 else if b = 0x301 then Some 0x388 else
        if b = 0x313 then Some 0x1F18 else if b = 0x314 then Some 0x1F19 else None) else
        if a = 0x397 then (if b = 0x300 then Some 0x1FCA else if b = 0x301 then Some 0x389 else
        if b = 0x313 then Some 0x1F28 else if b = 0x314 then Some 0x1F29 else
        if b = 0x345 then Some 0x1FCC else None) else if a = 0x399 then
        (if b = 0x300 then Some 0x1FDA else if b = 0x301 then Some 0x38A else
        if b = 0x304 then Some 0x1FD9 else if b = 0x306 then Some 0x1FD8 else
        if b = 0x308 then Some 0x3AA else if b = 0x313 then Some 0x1F38 else
        if b = 0x314 then Some 0x1F39 else None) else if a = 0x39F then
        (if b = 0x300 then Some 0x1FF8 else if b = 0x301 then Some 0x38C else
        if b = 0x313 then Some 0x1F48 else if b = 0x314 then Some 0x1F49 else None) else None)
      else if a < 0x3C1 then
       (if a = 0x3A1 then (if b = 0x314 then Some 0x1FEC else None) else if a = 0x3A5 then
        (if b = 0x300 then Some 0x1FEA else if b = 0x301 then Some 0x38E else
        if b = 0x304 then Some 0x1FE9 else if b = 0x306 then Some 0x1FE8 else
        if b = 0x308 then Some 0x3AB else if b = 0x314 then Some 0x1F59 else None) else
        if a = 0x3A9 then (if b = 0x300 then Some 0x1FFA else if b = 0x301 then Some 0x38F else
        if b = 0x313 then Some 0x1F68 else if b = 0x314 then Some 0x1F69 else
        if b = 0x345 then Some 0x1FFC else None) else if a = 0x3AC then
        (if b = 0x345 then Some 0x1FB4 else None) else if a = 0x3AE then
        (if b = 0x345 then Some 0x1FC4 else None) else if a = 0x3B1 then
        (if b = 0x300 then Some 0x1F70 else if b = 0x301 then Some 0x3AC else
        if b = 0x304 then Some 0x1FB1 else if b = 0x306 then Some 0x1FB0 else
        if b = 0x313 then Some 0x1F00 else if b = 0x314 then Some 0x1F01 else
        if b = 0x342 then Some 0x1FB6 else if b = 0x345 then Some 0x1FB3 else None) else
        if a = 0x3B5 then (if b = 0x300 then Some 0x1F72 else if b = 0x301 then Some 0x3AD else
        if b = 0x313 then Some 0x1F10 else if b = 0x314 then Some 0x1F11 else None) else
        if a = 0x3B7 then (if b = 0x300 then Some 0x1F74 else if b = 0x301 then Some 0x3AE else
        if b = 0x313 then Some 0x1F20 else if b = 0x314 then Some 0x1F21 else
        if b = 0x342 then Some 0x1FC6 else if b = 0x345 then Some 0x1FC3 else None) else
        if a = 0x3B9 then (if b = 0x300 then Some 0x1F76 else if b = 0x301 then Some 0x3AF else
        if b = 0x304 then Some 0x1FD1 else if b = 0x306 then Some 0x1FD0 else
        if b = 0x308 then Some 0x3CA else if b = 0x313 then Some 0x1F30 else
        if b = 0x314 then Some 0x1F31 else if b = 0x342 then Some 0x1FD6 else None) else
        if a = 0x3BF then (if b = 0x300 then Some 0x1F78 else if b = 0x301 then Some 0x3CC else
        if b = 0x313 then Some 0x1F40 else if b = 0x314 then Some 0x1F41 else None) else None)
      else if a < 0x3D2 then
       (if a = 0x3C1 then (if b = 0x313 then Some 0x1FE4 else if b = 0x314 then Some 0x1FE5 else
        None) else if a = 0x3C5 then (if b = 0x300 then Some 0x1F7A else
        if b = 0x301 then Some 0x3CD else if b = 0x304 then Some 0x1FE1 else
        if b = 0x306 then Some 0x1FE0 else if b = 0x308 then Some 0x3CB else
        if b = 0x313 then Some 0x1F50 else if b = 0x314 then Some 0x1F51 else
        if b = 0x342 then Some 0x1FE6 else None) else if a = 0x3C9 then
        (if b = 0x300 then Some 0x1F7C else if b = 0x301 then Some 0x3CE else
        if b = 0x313 then Some 0x1F60 else if b = 0x314 then Some 0x1F61 else
        if b = 0x342 then Some 0x1FF6 else if b = 0x345 then Some 0x1FF3 else None) else
        if a = 0x3CA then (if b = 0x300 then Some 0x1FD2 else if b = 0x301 then Some 0x390 else
        if b = 0x342 then Some 0x1FD7 else None) else if a = 0x3CB then
        (if b = 0x300 then Some 0x1FE2 else if b = 0x301 then Some 0x3B0 else
        if b = 0x342 then Some 0x1FE7 else None) else if a = 0x3CE then
        (if b = 0x345 then Some 0x1FF4 else None) else None)
      else if a < 0x1F00 then
       (if a = 0x3D2 then (if b = 0x301 then Some 0x3D3 else if b = 0x308 then Some 0x3D4 else
        None) else None)
      else if a < 0x1F10 then
       (if a = 0x1F00 then (if b = 0x300 then Some 0x1F02 else if b = 0x301 then Some 0x1F04 else
        if b = 0x342 then Some 0x1F06 else if b = 0x345 then Some 0x1F80 else None) else
        if a = 0x1F01 then (if b = 0x300 then Some 0x1F03 else if b = 0x301 then Some 0x1F05 else
        if b = 0x342 then Some 0x1F07 else if b = 0x345 then Some 0x1F81 else None) else
        if a = 0x1F02 then (if b = 0x345 then Some 0x1F82 else None) else if a = 0x1F03 then
        (if b = 0x345 then Some 0x1F83 else None) else if a = 0x1F04 then
        (if b = 0x345 then Some 0x1F84 else None) else if a = 0x1F05 then
        (if b = 0x345 then Some 0x1F85 else None) else if a = 0x1F06 then
        (if b = 0x345 then Some 0x1F86 else None) else if a = 0x1F07 then
        (if b = 0x345 then Some 0x1F87 else None) else if a = 0x1F08 then
        (if b = 0x300 then Some 0x1F0A else if b = 0x301 then Some 0x1F0C else
        if b = 0x342 then Some 0x1F0E else if b = 0x345 then Some 0x1F88 else None) else
        if a = 0x1F09 then (if b = 0x300 then Some 0x1F0B else if b = 0x301 then Some 0x1F0D else
        if b = 0x342 then Some 0x1F0F else if b = 0x345 then Some 0x1F89 else None) else
        if a = 0x1F0A then (if b = 0x345 then Some 0x1F8A else None) else if a = 0x1F0B then
        (if b = 0x345 then Some 0x1F8B else None) else if a = 0x1F0C then
        (if b = 0x345 then Some 0x1F8C else None) else if a = 0x1F0D then
        (if b = 0x345 then Some 0x1F8D else None) else if a = 0x1F0E then
        (if b = 0x345 then Some 0x1F8E else None) else if a = 0x1F0F then
        (if b = 0x345 then Some 0x1F8F else None) else None)
      else if a < 0x1F20 then
       (if a = 0x1F10 then (if b = 0x300 then Some 0x1F12 else if b = 0x301 then Some 0x1F14 else
        None) else if a = 0x1F11 then (if b = 0x300 then Some 0x1F13 else
        if b = 0x301 then Some 0x1F15 else None) else if a = 0x1F18 then
        (if b = 0x300 then Some 0x1F1A else if b = 0x301 then Some 0x1F1C else None) else
        if a = 0x1F19 then (if b = 0x300 then Some 0x1F1B else if b = 0x301 then Some 0x1F1D else
        None) else None)
      else if a < 0x1F30 then
       (if a = 0x1F20 then (if b = 0x300 then Some 0x1F22 else if b = 0x301 then Some 0x1F24 else
        if b = 0x342 then Some 0x1F26 else if b = 0x345 then Some 0x1F90 else None) else
        if a = 0x1F21 then (if b = 0x300 then Some 0x1F23 else if b = 0x301 then Some 0x1F25 else
        if b = 0x342 then Some 0x1F27 else if b = 0x345 then Some 0x1F91 else None) else
        if a = 0x1F22 then (if b = 0x345 then Some 0x1F92 else None) else if a = 0x1F23 then
        (if b = 0x345 then Some 0x1F93 else None) else if a = 0x1F24 then
        (if b = 0x345 then Some 0x1F94 else None) else if a = 0x1F25 then
        (if b = 0x345 then Some 0x1F95 else None) else if a = 0x1F26 then
        (if b = 0x345 then Some 0x1F96 else None) else if a = 0x1F27 then
        (if b = 0x345 then Some 0x1F97 else None) else if a = 0x1F28 then
        (if b = 0x300 then Some 0x1F2A else if b = 0x301 then Some 0x1F2C else
        if b = 0x342 then Some 0x1F2E else if b = 0x345 then Some 0x1F98 else None) else
        if a = 0x1F29 then (if b = 0x300 then Some 0x1F2B else if b = 0x301 then Some 0x1F2D else
        if b = 0x342 then Some 0x1F2F else if b = 0x345 then Some 0x1F99 else None) else
        if a = 0x1F2A then (if b = 0x345 then Some 0x1F9A else None) else if a = 0x1F2B then
        (if b = 0x345 then Some 0x1F9B else None) else if a = 0x1F2C then
        (if b = 0x345 then Some 0x1F9C else None) else if a = 0x1F2D then
        (if b = 0x345 then Some 0x1F9D else None) else if a = 0x1F2E then
        (if b = 0x345 then Some 0x1F9E else None) else if a = 0x1F2F then
        (if b = 0x345 then Some 0x1F9F else None) else None)
      else if a < 0x1F50 then
       (if a = 0x1F30 then (if b = 0x300 then Some 0x1F32 else if b = 0x301 then Some 0x1F34 else
        if b = 0x342 then Some 0x1F36 else None) else if a = 0x1F31 then
        (if b = 0x300 then Some 0x1F33 else if b = 0x301 then Some 0x1F35 else
        if b = 0x342 then Some 0x1F37 else None) else if a = 0x1F38 then
        (if b = 0x300 then Some 0x1F3A else if b = 0x301 then Some 0x1F3C else
        if b = 0x342 then Some 0x1F3E else None) else if a = 0x1F39 then
        (if b = 0x300 then Some 0x1F3B else if b = 0x301 then Some 0x1F3D else
        if b = 0x342 then Some 0x1F3F else None) else if a = 0x1F40 then
        (if b = 0x300 then Some 0x1F42 else if b = 0x301 then Some 0x1F44 else None) else
        if a = 0x1F41 then (if b = 0x300 then Some 0x1F43 else if b = 0x301 then Some 0x1F45 else
        None) else if a = 0x1F48 then (if b = 0x300 then Some 0x1F4A else
        if b = 0x301 then Some 0x1F4C else None) else if a = 0x1F49 then
        (if b = 0x300 then Some 0x1F4B else if b = 0x301 then Some 0x1F4D else None) else None)
      else if a < 0x1F60 then
       (if a = 0x1F50 then (if b = 0x300 then Some 0x1F52 else if b = 0x301 then Some 0x1F54 else
        if b = 0x342 then Some 0x1F56 else None) else if a = 0x1F51 then
        (if b = 0x300 then Some 0x1F53 else if b = 0x301 then Some 0x1F55 else
        if b = 0x342 then Some 0x1F57 else None) else if a = 0x1F59 then
        (if b = 0x300 then Some 0x1F5B else if b = 0x301 then Some 0x1F5D else
        if b = 0x342 then Some 0x1F5F else None) else None)
      else if a < 0x1F70 then
       (if a = 0x1F60 then (if b = 0x300 then Some 0x1F62 else if b = 0x301 then Some 0x1F64 else
        if b = 0x342 then Some 0x1F66 else if b = 0x345 then Some 0x1FA0 else None) else
        if a = 0x1F61 then (if b = 0x300 then Some 0x1F63 else if b = 0x301 then Some 0x1F65 else
        if b = 0x342 then Some 0x1F67 else if b = 0x345 then Some 0x1FA1 else None) else
        if a = 0x1F62 then (if b = 0x345 then Some 0x1FA2 else None) else if a = 0x1F63 then
        (if b = 0x345 then Some 0x1FA3 else None) else if a = 0x1F64 then
        (if b = 0x345 then Some 0x1FA4 else None) else if a = 0x1F65 then
        (if b = 0x345 then Some 0x1FA5 else None) else if a = 0x1F66 then
        (if b = 0x345 then Some 0x1FA6 else None) else if a = 0x1F67 then
        (if b = 0x345 then Some 0x1FA7 else None) else if a = 0x1F68 then
        (if b = 0x300 then Some 0x1F6A else if b = 0x301 then Some 0x1F6C else
        if b = 0x342 then Some 0x1F6E else if b = 0x345 then Some 0x1FA8 else None) else
        if a = 0x1F69 then (if b = 0x300 then Some 0x1F6B else if b = 0x301 then Some 0x1F6D else
        if b = 0x342 then Some 0x1F6F else if b = 0x345 then Some 0x1FA9 else None) else
        if a = 0x1F6A then (if b = 0x345 then Some 0x1FAA else None) else if a = 0x1F6B then
        (if b = 0x345 then Some 0x1FAB else None) else if a = 0x1F6C then
        (if b = 0x345 then Some 0x1FAC else None) else if a = 0x1F6D then
        (if b = 0x345 then Some 0x1FAD else None) else if a = 0x1F6E then
        (if b = 0x345 then Some 0x1FAE else None) else if a = 0x1F6F then
        (if b = 0x345 then Some 0x1FAF else None) else None)
      else if a < 0x1FF6 then
       (if a = 0x1F70 then (if b = 0x345 then Some 0x1FB2 else None) else if a = 0x1F74 then
        (if b = 0x345 then Some 0x1FC2 else None) else if a = 0x1F7C then
        (if b = 0x345 then Some 0x1FF2 else None) else if a = 0x1FB6 then
        (if b = 0x345 then Some 0x1FB7 else None) else if a = 0x1FBF then
        (if b = 0x300 then Some 0x1FCD else if b = 0x301 then Some 0x1FCE else
        if b = 0x342 then Some 0x1FCF else None) else if a = 0x1FC6 then
        (if b = 0x345 then Some 0x1FC7 else None) else None)
      else
       (if a = 0x1FF6 then (if b = 0x345 then Some 0x1FF7 else None) else if a = 0x1FFE then
        (if b = 0x300 then Some 0x1FDD else if b = 0x301 then Some 0x1FDE else
        if b = 0x342 then Some 0x1FDF else None) else None))"

definition category14 :: "codepoint \<Rightarrow> string" where
  "category14 c =
     (if c < 0x41 then
       (if 0x0 \<le> c \<and> c \<le> 0x1F then ''Cc'' else if c = 0x20 then ''Zs'' else
        if 0x21 \<le> c \<and> c \<le> 0x23 then ''Po'' else if c = 0x24 then ''Sc'' else
        if 0x25 \<le> c \<and> c \<le> 0x27 then ''Po'' else if c = 0x28 then ''Ps'' else
        if c = 0x29 then ''Pe'' else if c = 0x2A then ''Po'' else if c = 0x2B then ''Sm'' else
        if c = 0x2C then ''Po'' else if c = 0x2D then ''Pd'' else
        if 0x2E \<le> c \<and> c \<le> 0x2F then ''Po'' else
        if 0x30 \<le> c \<and> c \<le> 0x39 then ''Nd'' else
        if 0x3A \<le> c \<and> c \<le> 0x3B then ''Po'' else
        if 0x3C \<le> c \<and> c \<le> 0x3E then ''Sm'' else
        if 0x3F \<le> c \<and> c \<le> 0x40 then ''Po'' else ''Cn'')
      else if c < 0xA8 then
       (if 0x41 \<le> c \<and> c \<le> 0x5A then ''Lu'' else if c = 0x5B then ''Ps'' else
        if c = 0x5C then ''Po'' else if c = 0x5D then ''Pe'' else if c = 0x5E then ''Sk'' else
        if c = 0x5F then ''Pc'' else if c = 0x60 then ''Sk'' else
        if 0x61 \<le> c \<and> c \<le> 0x7A then ''Ll'' else if c = 0x7B then ''Ps'' else
        if c = 0x7C then ''Sm'' else if c = 0x7D then ''Pe'' else if c = 0x7E then ''Sm'' else
        if c = 0x7F then ''Cc'' else ''Cn'')
      else if c < 0x380 then
       (if c = 0xA8 then ''Sk'' else if c = 0xB4 then ''Sk'' else if c = 0xB7 then ''Po'' else
        if c = 0x2B9 then ''Lm'' else if 0x300 \<le> c \<and> c \<le> 0x36F then ''Mn'' else
        if c = 0x370 then ''Lu'' else if c = 0x371 then ''Ll'' else if c = 0x372 then ''Lu'' else
        if c = 0x373 then ''Ll'' else if c = 0x374 then ''Lm'' else if c = 0x375 then ''Sk'' else
        if c = 0x376 then ''Lu'' else if c = 0x377 then ''Ll'' else
        if 0x378 \<le> c \<and> c \<le> 0x379 then ''Cn'' else if c = 0x37A then ''Lm'' else
        if 0x37B \<le> c \<and> c \<le> 0x37D then ''Ll'' else if c = 0x37E then ''Po'' else
        if c = 0x37F then ''Lu'' else ''Cn'')
      else if c < 0x3A2 then
       (if 0x380 \<le> c \<and> c \<le> 0x383 then ''Cn'' else
        if 0x384 \<le> c \<and> c \<le> 0x385 then ''Sk'' else if c = 0x386 then ''Lu'' else
        if c = 0x387 then ''Po'' else if 0x388 \<le> c \<and> c \<le> 0x38A then ''Lu'' else
        if c = 0x38B then ''Cn'' else if c = 0x38C then ''Lu'' else if c = 0x38D then ''Cn'' else
        if 0x38E \<le> c \<and> c \<le> 0x38F then ''Lu'' else if c = 0x390 then ''Ll'' else
        if 0x391 \<le> c \<and> c \<le> 0x3A1 then ''Lu'' else ''Cn'')
      else if c < 0x3E0 then
       (if c = 0x3A2 then ''Cn'' else if 0x3A3 \<le> c \<and> c \<le> 0x3AB then ''Lu'' else
        if 0x3AC \<le> c \<and> c \<le> 0x3CE then ''Ll'' else if c = 0x3CF then ''Lu'' else
        if 0x3D0 \<le> c \<and> c \<le> 0x3D1 then ''Ll'' else
        if 0x3D2 \<le> c \<and> c \<le> 0x3D4 then ''Lu'' else
        if 0x3D5 \<le> c \<and> c \<le> 0x3D7 then ''Ll'' else if c = 0x3D8 then ''Lu'' else
        if c = 0x3D9 then ''Ll'' else if c = 0x3DA then ''Lu'' else if c = 0x3DB then ''Ll'' else
        if c = 0x3DC then ''Lu'' else if c = 0x3DD then ''Ll'' else if c = 0x3DE then ''Lu'' else
        if c = 0x3DF then ''Ll'' else ''Cn'')
      else if c < 0x1F00 then
       (if c = 0x3E0 then ''Lu'' else if c = 0x3E1 then ''Ll'' else if c = 0x3E2 then ''Lu'' else
        if c = 0x3E3 then ''Ll'' else if c = 0x3E4 then ''Lu'' else if c = 0x3E5 then ''Ll'' else
        if c = 0x3E6 then ''Lu'' else if c = 0x3E7 then ''Ll'' else if c = 0x3E8 then ''Lu'' else
        if c = 0x3E9 then ''Ll'' else if c = 0x3EA then ''Lu'' else if c = 0x3EB then ''Ll'' else
        if c = 0x3EC then ''Lu'' else if c = 0x3ED then ''Ll'' else if c = 0x3EE then ''Lu'' else
        if 0x3EF \<le> c \<and> c \<le> 0x3F3 then ''Ll'' else if c = 0x3F4 then ''Lu'' else
        if c = 0x3F5 then ''Ll'' else if c = 0x3F6 then ''Sm'' else if c = 0x3F7 then ''Lu'' else
        if c = 0x3F8 then ''Ll'' else if 0x3F9 \<le> c \<and> c \<le> 0x3FA then ''Lu'' else
        if 0x3FB \<le> c \<and> c \<le> 0x3FC then ''Ll'' else
        if 0x3FD \<le> c \<and> c \<le> 0x3FF then ''Lu'' else ''Cn'')
      else if c < 0x1F40 then
       (if 0x1F00 \<le> c \<and> c \<le> 0x1F07 then ''Ll'' else
        if 0x1F08 \<le> c \<and> c \<le> 0x1F0F then ''Lu'' else
        if 0x1F10 \<le> c \<and> c \<le> 0x1F15 then ''Ll'' else
        if 0x1F16 \<le> c \<and> c \<le> 0x1F17 then ''Cn'' else
        if 0x1F18 \<le> c \<and> c \<le> 0x1F1D then ''Lu'' else
        if 0x1F1E \<le> c \<and> c \<le> 0x1F1F then ''Cn'' else
        if 0x1F20 \<le> c \<and> c \<le> 0x1F27 then ''Ll'' else
        if 0x1F28 \<le> c \<and> c \<le> 0x1F2F then ''Lu'' else
        if 0x1F30 \<le> c \<and> c \<le> 0x1F37 then ''Ll'' else
        if 0x1F38 \<le> c \<and> c \<le> 0x1F3F then ''Lu'' else ''Cn'')
      else if c < 0x1F60 then
       (if 0x1F40 \<le> c \<and> c \<le> 0x1F45 then ''Ll'' else
        if 0x1F46 \<le> c \<and> c \<le> 0x1F47 then ''Cn'' else
        if 0x1F48 \<le> c \<and> c \<le> 0x1F4D then ''Lu'' else
        if 0x1F4E \<le> c \<and> c \<le> 0x1F4F then ''Cn'' else
        if 0x1F50 \<le> c \<and> c \<le> 0x1F57 then ''Ll'' else if c = 0x1F58 then ''Cn'' else
        if c = 0x1F59 then ''Lu'' else if c = 0x1F5A then ''Cn'' else
        if c = 0x1F5B then ''Lu'' else if c = 0x1F5C then ''Cn'' else
        if c = 0x1F5D then ''Lu'' else if c = 0x1F5E then ''Cn'' else
        if c = 0x1F5F then ''Lu'' else ''Cn'')
      else if c < 0x1FC2 then
       (if 0x1F60 \<le> c \<and> c \<le> 0x1F67 then ''Ll'' else
        if 0x1F68 \<le> c \<and> c \<le> 0x1F6F then ''Lu'' else
        if 0x1F70 \<le> c \<and> c \<le> 0x1F7D then ''Ll'' else
        if 0x1F7E \<le> c \<and> c \<le> 0x1F7F then ''Cn'' else
        if 0x1F80 \<le> c \<and> c \<le> 0x1F87 then ''Ll'' else
        if 0x1F88 \<le> c \<and> c \<le> 0x1F8F then ''Lt'' else
        if 0x1F90 \<le> c \<and> c \<le> 0x1F97 then ''Ll'' else
        if 0x1F98 \<le> c \<and> c \<le> 0x1F9F then ''Lt'' else
        if 0x1FA0 \<le> c \<and> c \<le> 0x1FA7 then ''Ll'' else
        if 0x1FA8 \<le> c \<and> c \<le> 0x1FAF then ''Lt'' else
        if 0x1FB0 \<le> c \<and> c \<le> 0x1FB4 then ''Ll'' else if c = 0x1FB5 then ''Cn'' else
        if 0x1FB6 \<le> c \<and> c \<le> 0x1FB7 then ''Ll'' else
        if 0x1FB8 \<le> c \<and> c \<le> 0x1FBB then ''Lu'' else if c = 0x1FBC then ''Lt'' else
        if c = 0x1FBD then ''Sk'' else if c = 0x1FBE then ''Ll'' else
        if 0x1FBF \<le> c \<and> c \<le> 0x1FC1 then ''Sk'' else ''Cn'')
      else if c < 0x1FE0 then
       (if 0x1FC2 \<le> c \<and> c \<le> 0x1FC4 then ''Ll'' else if c = 0x1FC5 then ''Cn'' else
        if 0x1FC6 \<le> c \<and> c \<le> 0x1FC7 then ''Ll'' else
        if 0x1FC8 \<le> c \<and> c \<le> 0x1FCB then ''Lu'' else if c = 0x1FCC then ''Lt'' else
        if 0x1FCD \<le> c \<and> c \<le> 0x1FCF then ''Sk'' else
        if 0x1FD0 \<le> c \<and> c \<le> 0x1FD3 then ''Ll'' else
        if 0x1FD4 \<le> c \<and> c \<le> 0x1FD5 then ''Cn'' else
        if 0x1FD6 \<le> c \<and> c \<le> 0x1FD7 then ''Ll'' else
        if 0x1FD8 \<le> c \<and> c \<le> 0x1FDB then ''Lu'' else if c = 0x1FDC then ''Cn'' else
        if 0x1FDD \<le> c \<and> c \<le> 0x1FDF then ''Sk'' else ''Cn'')
      else if c < 0x2013 then
       (if 0x1FE0 \<le> c \<and> c \<le> 0x1FE7 then ''Ll'' else
        if 0x1FE8 \<le> c \<and> c \<le> 0x1FEC then ''Lu'' else
        if 0x1FED \<le> c \<and> c \<le> 0x1FEF then ''Sk'' else
        if 0x1FF0 \<le> c \<and> c \<le> 0x1FF1 then ''Cn'' else
        if 0x1FF2 \<le> c \<and> c \<le> 0x1FF4 then ''Ll'' else if c = 0x1FF5 then ''Cn'' else
        if 0x1FF6 \<le> c \<and> c \<le> 0x1FF7 then ''Ll'' else
        if 0x1FF8 \<le> c \<and> c \<le> 0x1FFB then ''Lu'' else if c = 0x1FFC then ''Lt'' else
        if 0x1FFD \<le> c \<and> c \<le> 0x1FFE then ''Sk'' else if c = 0x1FFF then ''Cn'' else
        ''Cn'')
      else
       (if 0x2013 \<le> c \<and> c \<le> 0x2014 then ''Pd'' else if c = 0x2160 then ''Nl'' else
        ''Cn''))"

definition upper_full14 :: "codepoint \<Rightarrow> str" where
  "upper_full14 c =
     (if c < 0x70 then
       (if c = 0x61 then [0x41] else if c = 0x62 then [0x42] else if c = 0x63 then [0x43] else
        if c = 0x64 then [0x44] else if c = 0x65 then [0x45] else if c = 0x66 then [0x46] else
        if c = 0x67 then [0x47] else if c = 0x68 then [0x48] else if c = 0x69 then [0x49] else
        if c = 0x6A then [0x4A] else if c = 0x6B then [0x4B] else if c = 0x6C then [0x4C] else
        if c = 0x6D then [0x4D] else if c = 0x6E then [0x4E] else if c = 0x6F then [0x4F] else
        [c])
      else if c < 0x345 then
       (if c = 0x70 then [0x50] else if c = 0x71 then [0x51] else if c = 0x72 then [0x52] else
        if c = 0x73 then [0x53] else if c = 0x74 then [0x54] else if c = 0x75 then [0x55] else
        if c = 0x76 then [0x56] else if c = 0x77 then [0x57] else if c = 0x78 then [0x58] else
        if c = 0x79 then [0x59] else if c = 0x7A then [0x5A] else [c])
      else if c < 0x390 then
       (if c = 0x345 then [0x399] else if c = 0x371 then [0x370] else
        if c = 0x373 then [0x372] else if c = 0x377 then [0x376] else
        if c = 0x37B then [0x3FD] else if c = 0x37C then [0x3FE] else
        if c = 0x37D then [0x3FF] else [c])
      else if c < 0x3B0 then
       (if c = 0x390 then [0x399, 0x308, 0x301] else if c = 0x3AC then [0x386] else
        if c = 0x3AD then [0x388] else if c = 0x3AE then [0x389] else
        if c = 0x3AF then [0x38A] else [c])
      else if c < 0x3C0 then
       (if c = 0x3B0 then [0x3A5, 0x308, 0x301] else if c = 0x3B1 then [0x391] else
        if c = 0x3B2 then [0x392] else if c = 0x3B3 then [0x393] else
        if c = 0x3B4 then [0x394] else if c = 0x3B5 then [0x395] else
        if c = 0x3B6 then [0x396] else if c = 0x3B7 then [0x397] else
        if c = 0x3B8 then [0x398] else if c = 0x3B9 then [0x399] else
        if c = 0x3BA then [0x39A] else if c = 0x3BB then [0x39B] else
        if c = 0x3BC then [0x39C] else if c = 0x3BD then [0x39D] else
        if c = 0x3BE then [0x39E] else if c = 0x3BF then [0x39F] else [c])
      else if c < 0x3D0 then
       (if c = 0x3C0 then [0x3A0] else if c = 0x3C1 then [0x3A1] else
        if c = 0x3C2 then [0x3A3] else if c = 0x3C3 then [0x3A3] else
        if c = 0x3C4 then [0x3A4] else if c = 0x3C5 then [0x3A5] else
        if c = 0x3C6 then [0x3A6] else if c = 0x3C7 then [0x3A7] else
        if c = 0x3C8 then [0x3A8] else if c = 0x3C9 then [0x3A9] else
        if c = 0x3CA then [0x3AA] else if c = 0x3CB then [0x3AB] else
        if c = 0x3CC then [0x38C] else if c = 0x3CD then [0x38E] else
        if c = 0x3CE then [0x38F] else [c])
      else if c < 0x3E1 then
       (if c = 0x3D0 then [0x392] else if c = 0x3D1 then [0x398] else
        if c = 0x3D5 then [0x3A6] else if c = 0x3D6 then [0x3A0] else
        if c = 0x3D7 then [0x3CF] else if c = 0x3D9 then [0x3D8] else
        if c = 0x3DB then [0x3DA] else if c = 0x3DD then [0x3DC] else
        if c = 0x3DF then [0x3DE] else [c])
      else if c < 0x3F0 then
       (if c = 0x3E1 then [0x3E0] else if c = 0x3E3 then [0x3E2] else
        if c = 0x3E5 then [0x3E4] else if c = 0x3E7 then [0x3E6] else
        if c = 0x3E9 then [0x3E8] else if c = 0x3EB then [0x3EA] else
        if c = 0x3ED then [0x3EC] else if c = 0x3EF then [0x3EE] else [c])
      else if c < 0x1F00 then
       (if c = 0x3F0 then [0x39A] else if c = 0x3F1 then [0x3A1] else
        if c = 0x3F2 then [0x3F9] else if c = 0x3F3 then [0x37F] else
        if c = 0x3F5 then [0x395] else if c = 0x3F8 then [0x3F7] else
        if c = 0x3FB then [0x3FA] else [c])
      else if c < 0x1F10 then
       (if c = 0x1F00 then [0x1F08] else if c = 0x1F01 then [0x1F09] else
        if c = 0x1F02 then [0x1F0A] else if c = 0x1F03 then [0x1F0B] else
        if c = 0x1F04 then [0x1F0C] else if c = 0x1F05 then [0x1F0D] else
        if c = 0x1F06 then [0x1F0E] else if c = 0x1F07 then [0x1F0F] else [c])
      else if c < 0x1F20 then
       (if c = 0x1F10 then [0x1F18] else if c = 0x1F11 then [0x1F19] else
        if c = 0x1F12 then [0x1F1A] else if c = 0x1F13 then [0x1F1B] else
        if c = 0x1F14 then [0x1F1C] else if c = 0x1F15 then [0x1F1D] else [c])
      else if c < 0x1F30 then
       (if c = 0x1F20 then [0x1F28] else if c = 0x1F21 then [0x1F29] else
        if c = 0x1F22 then [0x1F2A] else if c = 0x1F23 then [0x1F2B] else
        if c = 0x1F24 then [0x1F2C] else if c = 0x1F25 then [0x1F2D] else
        if c = 0x1F26 then [0x1F2E] else if c = 0x1F27 then [0x1F2F] else [c])
      else if c < 0x1F40 then
       (if c = 0x1F30 then [0x1F38] else if c = 0x1F31 then [0x1F39] else
        if c = 0x1F32 then [0x1F3A] else if c = 0x1F33 then [0x1F3B] else
        if c = 0x1F34 then [0x1F3C] else if c = 0x1F35 then [0x1F3D] else
        if c = 0x1F36 then [0x1F3E] else if c = 0x1F37 then [0x1F3F] else [c])
      else if c < 0x1F50 then
       (if c = 0x1F40 then [0x1F48] else if c = 0x1F41 then [0x1F49] else
        if c = 0x1F42 then [0x1F4A] else if c = 0x1F43 then [0x1F4B] else
        if c = 0x1F44 then [0x1F4C] else if c = 0x1F45 then [0x1F4D] else [c])
      else if c < 0x1F60 then
       (if c = 0x1F50 then [0x3A5, 0x313] else if c = 0x1F51 then [0x1F59] else
        if c = 0x1F52 then [0x3A5, 0x313, 0x300] else if c = 0x1F53 then [0x1F5B] else
        if c = 0x1F54 then [0x3A5, 0x313, 0x301] else if c = 0x1F55 then [0x1F5D] else
        if c = 0x1F56 then [0x3A5, 0x313, 0x342] else if c = 0x1F57 then [0x1F5F] else [c])
      else if c < 0x1F70 then
       (if c = 0x1F60 then [0x1F68] else if c = 0x1F61 then [0x1F69] else
        if c = 0x1F62 then [0x1F6A] else if c = 0x1F63 then [0x1F6B] else
        if c = 0x1F64 then [0x1F6C] else if c = 0x1F65 then [0x1F6D] else
        if c = 0x1F66 then [0x1F6E] else if c = 0x1F67 then [0x1F6F] else [c])
      else if c < 0x1F80 then
       (if c = 0x1F70 then [0x1FBA] else if c = 0x1F71 then [0x1FBB] else
        if c = 0x1F72 then [0x1FC8] else if c = 0x1F73 then [0x1FC9] else
        if c = 0x1F74 then [0x1FCA] else if c = 0x1F75 then [0x1FCB] else
        if c = 0x1F76 then [0x1FDA] else if c = 0x1F77 then [0x1FDB] else
        if c = 0x1F78 then [0x1FF8] else if c = 0x1F79 then [0x1FF9] else
        if c = 0x1F7A then [0x1FEA] else if c = 0x1F7B then [0x1FEB] else
        if c = 0x1F7C then [0x1FFA] else if c = 0x1F7D then [0x1FFB] else [c])
      else if c < 0x1F90 then
       (if c = 0x1F80 then [0x1F08, 0x399] else if c = 0x1F81 then [0x1F09, 0x399] else
        if c = 0x1F82 then [0x1F0A, 0x399] else if c = 0x1F83 then [0x1F0B, 0x399] else
        if c = 0x1F84 then [0x1F0C, 0x399] else if c = 0x1F85 then [0x1F0D, 0x399] else
        if c = 0x1F86 then [0x1F0E, 0x399] else if c = 0x1F87 then [0x1F0F, 0x399] else
        if c = 0x1F88 then [0x1F08, 0x399] else if c = 0x1F89 then [0x1F09, 0x399] else
        if c = 0x1F8A then [0x1F0A, 0x399] else if c = 0x1F8B then [0x1F0B, 0x399] else
        if c = 0x1F8C then [0x1F0C, 0x399] else if c = 0x1F8D then [0x1F0D, 0x399] else
        if c = 0x1F8E then [0x1F0E, 0x399] else if c = 0x1F8F then [0x1F0F, 0x399] else [c])
      else if c < 0x1FA0 then
       (if c = 0x1F90 then [0x1F28, 0x399] else if c = 0x1F91 then [0x1F29, 0x399] else
        if c = 0x1F92 then [0x1F2A, 0x399] else if c = 0x1F93 then [0x1F2B, 0x399] else
        if c = 0x1F94 then [0x1F2C, 0x399] else if c = 0x1F95 then [0x1F2D, 0x399] else
        if c = 0x1F96 then [0x1F2E, 0x399] else if c = 0x1F97 then [0x1F2F, 0x399] else
        if c = 0x1F98 then [0x1F28, 0x399] else if c = 0x1F99 then [0x1F29, 0x399] else
        if c = 0x1F9A then [0x1F2A, 0x399] else if c = 0x1F9B then [0x1F2B, 0x399] else
        if c = 0x1F9C then [0x1F2C, 0x399] else if c = 0x1F9D then [0x1F2D, 0x399] else
        if c = 0x1F9E then [0x1F2E, 0x399] else if c = 0x1F9F then [0x1F2F, 0x399] else [c])
      else if c < 0x1FB0 then
       (if c = 0x1FA0 then [0x1F68, 0x399] else if c = 0x1FA1 then [0x1F69, 0x399] else
        if c = 0x1FA2 then [0x1F6A, 0x399] else if c = 0x1FA3 then [0x1F6B, 0x399] else
        if c = 0x1FA4 then [0x1F6C, 0x399] else if c = 0x1FA5 then [0x1F6D, 0x399] else
        if c = 0x1FA6 then [0x1F6E, 0x399] else if c = 0x1FA7 then [0x1F6F, 0x399] else
        if c = 0x1FA8 then [0x1F68, 0x399] else if c = 0x1FA9 then [0x1F69, 0x399] else
        if c = 0x1FAA then [0x1F6A, 0x399] else if c = 0x1FAB then [0x1F6B, 0x399] else
        if c = 0x1FAC then [0x1F6C, 0x399] else if c = 0x1FAD then [0x1F6D, 0x399] else
        if c = 0x1FAE then [0x1F6E, 0x399] else if c = 0x1FAF then [0x1F6F, 0x399] else [c])
      else if c < 0x1FC2 then
       (if c = 0x1FB0 then [0x1FB8] else if c = 0x1FB1 then [0x1FB9] else
        if c = 0x1FB2 then [0x1FBA, 0x399] else if c = 0x1FB3 then [0x391, 0x399] else
        if c = 0x1FB4 then [0x386, 0x399] else if c = 0x1FB6 then [0x391, 0x342] else
        if c = 0x1FB7 then [0x391, 0x342, 0x399] else if c = 0x1FBC then [0x391, 0x399] else
        if c = 0x1FBE then [0x399] else [c])
      else if c < 0x1FD0 then
       (if c = 0x1FC2 then [0x1FCA, 0x399] else if c = 0x1FC3 then [0x397, 0x399] else
        if c = 0x1FC4 then [0x389, 0x399] else if c = 0x1FC6 then [0x397, 0x342] else
        if c = 0x1FC7 then [0x397, 0x342, 0x399] else if c = 0x1FCC then [0x397, 0x399] else [c])
      else if c < 0x1FE0 then
       (if c = 0x1FD0 then [0x1FD8] else if c = 0x1FD1 then [0x1FD9] else
        if c = 0x1FD2 then [0x399, 0x308, 0x300] else
        if c = 0x1FD3 then [0x399, 0x308, 0x301] else if c = 0x1FD6 then [0x399, 0x342] else
        if c = 0x1FD7 then [0x399, 0x308, 0x342] else [c])
      else if c < 0x1FF2 then
       (if c = 0x1FE0 then [0x1FE8] else if c = 0x1FE1 then [0x1FE9] else
        if c = 0x1FE2 then [0x3A5, 0x308, 0x300] else
        if c = 0x1FE3 then [0x3A5, 0x308, 0x301] else if c = 0x1FE4 then [0x3A1, 0x313] else
        if c = 0x1FE5 then [0x1FEC] else if c = 0x1FE6 then [0x3A5, 0x342] else
        if c = 0x1FE7 then [0x3A5, 0x308, 0x342] else [c])
      else
       (if c = 0x1FF2 then [0x1FFA, 0x399] else if c = 0x1FF3 then [0x3A9, 0x399] else
        if c = 0x1FF4 then [0x38F, 0x399] else if c = 0x1FF6 then [0x3A9, 0x342] else
        if c = 0x1FF7 then [0x3A9, 0x342, 0x399] else if c = 0x1FFC then [0x3A9, 0x399] else [c]))"

definition lower_full14 :: "codepoint \<Rightarrow> str" where
  "lower_full14 c =
     (if c < 0x50 then
       (if c = 0x41 then [0x61] else if c = 0x42 then [0x62] else if c = 0x43 then [0x63] else
        if c = 0x44 then [0x64] else if c = 0x45 then [0x65] else if c = 0x46 then [0x66] else
        if c = 0x47 then [0x67] else if c = 0x48 then [0x68] else if c = 0x49 then [0x69] else
        if c = 0x4A then [0x6A] else if c = 0x4B then [0x6B] else if c = 0x4C then [0x6C] else
        if c = 0x4D then [0x6D] else if c = 0x4E then [0x6E] else if c = 0x4F then [0x6F] else
        [c])
      else if c < 0x370 then
       (if c = 0x50 then [0x70] else if c = 0x51 then [0x71] else if c = 0x52 then [0x72] else
        if c = 0x53 then [0x73] else if c = 0x54 then [0x74] else if c = 0x55 then [0x75] else
        if c = 0x56 then [0x76] else if c = 0x57 then [0x77] else if c = 0x58 then [0x78] else
        if c = 0x59 then [0x79] else if c = 0x5A then [0x7A] else [c])
      else if c < 0x391 then
       (if c = 0x370 then [0x371] else if c = 0x372 then [0x373] else
        if c = 0x376 then [0x377] else if c = 0x37F then [0x3F3] else
        if c = 0x386 then [0x3AC] else if c = 0x388 then [0x3AD] else
        if c = 0x389 then [0x3AE] else if c = 0x38A then [0x3AF] else
        if c = 0x38C then [0x3CC] else if c = 0x38E then [0x3CD] else
        if c = 0x38F then [0x3CE] else [c])
      else if c < 0x3A0 then
       (if c = 0x391 then [0x3B1] else if c = 0x392 then [0x3B2] else
        if c = 0x393 then [0x3B3] else if c = 0x394 then [0x3B4] else
        if c = 0x395 then [0x3B5] else if c = 0x396 then [0x3B6] else
        if c = 0x397 then [0x3B7] else if c = 0x398 then [0x3B8] else
        if c = 0x399 then [0x3B9] else if c = 0x39A then [0x3BA] else
        if c = 0x39B then [0x3BB] else if c = 0x39C then [0x3BC] else
        if c = 0x39D then [0x3BD] else if c = 0x39E then [0x3BE] else
        if c = 0x39F then [0x3BF] else [c])
      else if c < 0x3CF then
       (if c = 0x3A0 then [0x3C0] else if c = 0x3A1 then [0x3C1] else
        if c = 0x3A3 then [0x3C3] else if c = 0x3A4 then [0x3C4] else
        if c = 0x3A5 then [0x3C5] else if c = 0x3A6 then [0x3C6] else
        if c = 0x3A7 then [0x3C7] else if c = 0x3A8 then [0x3C8] else
        if c = 0x3A9 then [0x3C9] else if c = 0x3AA then [0x3CA] else
        if c = 0x3AB then [0x3CB] else [c])
      else if c < 0x3F4 then
       (if c = 0x3CF then [0x3D7] else if c = 0x3D8 then [0x3D9] else
        if c = 0x3DA then [0x3DB] else if c = 0x3DC then [0x3DD] else
        if c = 0x3DE then [0x3DF] else if c = 0x3E0 then [0x3E1] else
        if c = 0x3E2 then [0x3E3] else if c = 0x3E4 then [0x3E5] else
        if c = 0x3E6 then [0x3E7] else if c = 0x3E8 then [0x3E9] else
        if c = 0x3EA then [0x3EB] else if c = 0x3EC then [0x3ED] else
        if c = 0x3EE then [0x3EF] else [c])
      else if c < 0x1F08 then
       (if c = 0x3F4 then [0x3B8] else if c = 0x3F7 then [0x3F8] else
        if c = 0x3F9 then [0x3F2] else if c = 0x3FA then [0x3FB] else
        if c = 0x3FD then [0x37B] else if c = 0x3FE then [0x37C] else
        if c = 0x3FF then [0x37D] else [c])
      else if c < 0x1F18 then
       (if c = 0x1F08 then [0x1F00] else if c = 0x1F09 then [0x1F01] else
        if c = 0x1F0A then [0x1F02] else if c = 0x1F0B then [0x1F03] else
        if c = 0x1F0C then [0x1F04] else if c = 0x1F0D then [0x1F05] else
        if c = 0x1F0E then [0x1F06] else if c = 0x1F0F then [0x1F07] else [c])
      else if c < 0x1F28 then
       (if c = 0x1F18 then [0x1F10] else if c = 0x1F19 then [0x1F11] else
        if c = 0x1F1A then [0x1F12] else if c = 0x1F1B then [0x1F13] else
        if c = 0x1F1C then [0x1F14] else if c = 0x1F1D then [0x1F15] else [c])
      else if c < 0x1F38 then
       (if c = 0x1F28 then [0x1F20] else if c = 0x1F29 then [0x1F21] else
        if c = 0x1F2A then [0x1F22] else if c = 0x1F2B then [0x1F23] else
        if c = 0x1F2C then [0x1F24] else if c = 0x1F2D then [0x1F25] else
        if c = 0x1F2E then [0x1F26] else if c = 0x1F2F then [0x1F27] else [c])
      else if c < 0x1F48 then
       (if c = 0x1F38 then [0x1F30] else if c = 0x1F39 then [0x1F31] else
        if c = 0x1F3A then [0x1F32] else if c = 0x1F3B then [0x1F33] else
        if c = 0x1F3C then [0x1F34] else if c = 0x1F3D then [0x1F35] else
        if c = 0x1F3E then [0x1F36] else if c = 0x1F3F then [0x1F37] else [c])
      else if c < 0x1F59 then
       (if c = 0x1F48 then [0x1F40] else if c = 0x1F49 then [0x1F41] else
        if c = 0x1F4A then [0x1F42] else if c = 0x1F4B then [0x1F43] else
        if c = 0x1F4C then [0x1F44] else if c = 0x1F4D then [0x1F45] else [c])
      else if c < 0x1F88 then
       (if c = 0x1F59 then [0x1F51] else if c = 0x1F5B then [0x1F53] else
        if c = 0x1F5D then [0x1F55] else if c = 0x1F5F then [0x1F57] else
        if c = 0x1F68 then [0x1F60] else if c = 0x1F69 then [0x1F61] else
        if c = 0x1F6A then [0x1F62] else if c = 0x1F6B then [0x1F63] else
        if c = 0x1F6C then [0x1F64] else if c = 0x1F6D then [0x1F65] else
        if c = 0x1F6E then [0x1F66] else if c = 0x1F6F then [0x1F67] else [c])
      else if c < 0x1F98 then
       (if c = 0x1F88 then [0x1F80] else if c = 0x1F89 then [0x1F81] else
        if c = 0x1F8A then [0x1F82] else if c = 0x1F8B then [0x1F83] else
        if c = 0x1F8C then [0x1F84] else if c = 0x1F8D then [0x1F85] else
        if c = 0x1F8E then [0x1F86] else if c = 0x1F8F then [0x1F87] else [c])
      else if c < 0x1FA8 then
       (if c = 0x1F98 then [0x1F90] else if c = 0x1F99 then [0x1F91] else
        if c = 0x1F9A then [0x1F92] else if c = 0x1F9B then [0x1F93] else
        if c = 0x1F9C then [0x1F94] else if c = 0x1F9D then [0x1F95] else
        if c = 0x1F9E then [0x1F96] else if c = 0x1F9F then [0x1F97] else [c])
      else if c < 0x1FB8 then
       (if c = 0x1FA8 then [0x1FA0] else if c = 0x1FA9 then [0x1FA1] else
        if c = 0x1FAA then [0x1FA2] else if c = 0x1FAB then [0x1FA3] else
        if c = 0x1FAC then [0x1FA4] else if c = 0x1FAD then [0x1FA5] else
        if c = 0x1FAE then [0x1FA6] else if c = 0x1FAF then [0x1FA7] else [c])
      else if c < 0x1FD8 then
       (if c = 0x1FB8 then [0x1FB0] else if c = 0x1FB9 then [0x1FB1] else
        if c = 0x1FBA then [0x1F70] else if c = 0x1FBB then [0x1F71] else
        if c = 0x1FBC then [0x1FB3] else if c = 0x1FC8 then [0x1F72] else
        if c = 0x1FC9 then [0x1F73] else if c = 0x1FCA then [0x1F74] else
        if c = 0x1FCB then [0x1F75] else if c = 0x1FCC then [0x1FC3] else [c])
      else if c < 0x1FF8 then
       (if c = 0x1FD8 then [0x1FD0] else if c = 0x1FD9 then [0x1FD1] else
        if c = 0x1FDA then [0x1F76] else if c = 0x1FDB then [0x1F77] else
        if c = 0x1FE8 then [0x1FE0] else if c = 0x1FE9 then [0x1FE1] else
        if c = 0x1FEA then [0x1F7A] else if c = 0x1FEB then [0x1F7B] else
        if c = 0x1FEC then [0x1FE5] else [c])
      else
       (if c = 0x1FF8 then [0x1F78] else if c = 0x1FF9 then [0x1F79] else
        if c = 0x1FFA then [0x1F7C] else if c = 0x1FFB then [0x1F7D] else
        if c = 0x1FFC then [0x1FF3] else if c = 0x2160 then [0x2170] else [c]))"

definition cased14 :: "codepoint \<Rightarrow> bool" where
  "cased14 c \<longleftrightarrow>
     (0x41 \<le> c \<and> c \<le> 0x5A) \<or> (0x61 \<le> c \<and> c \<le> 0x7A) \<or>
     c = 0x345 \<or> (0x370 \<le> c \<and> c \<le> 0x373) \<or>
     (0x376 \<le> c \<and> c \<le> 0x377) \<or> (0x37A \<le> c \<and> c \<le> 0x37D) \<or>
     c = 0x37F \<or> c = 0x386 \<or> (0x388 \<le> c \<and> c \<le> 0x38A) \<or> c = 0x38C \<or>
     (0x38E \<le> c \<and> c \<le> 0x3A1) \<or> (0x3A3 \<le> c \<and> c \<le> 0x3F5) \<or>
     (0x3F7 \<le> c \<and> c \<le> 0x3FF) \<or> (0x1F00 \<le> c \<and> c \<le> 0x1F15) \<or>
     (0x1F18 \<le> c \<and> c \<le> 0x1F1D) \<or> (0x1F20 \<le> c \<and> c \<le> 0x1F45) \<or>
     (0x1F48 \<le> c \<and> c \<le> 0x1F4D) \<or> (0x1F50 \<le> c \<and> c \<le> 0x1F57) \<or>
     c = 0x1F59 \<or> c = 0x1F5B \<or> c = 0x1F5D \<or>
     (0x1F5F \<le> c \<and> c \<le> 0x1F7D) \<or> (0x1F80 \<le> c \<and> c \<le> 0x1FB4) \<or>
     (0x1FB6 \<le> c \<and> c \<le> 0x1FBC) \<or> c = 0x1FBE \<or>
     (0x1FC2 \<le> c \<and> c \<le> 0x1FC4) \<or> (0x1FC6 \<le> c \<and> c \<le> 0x1FCC) \<or>
     (0x1FD0 \<le> c \<and> c \<le> 0x1FD3) \<or> (0x1FD6 \<le> c \<and> c \<le> 0x1FDB) \<or>
     (0x1FE0 \<le> c \<and> c \<le> 0x1FEC) \<or> (0x1FF2 \<le> c \<and> c \<le> 0x1FF4) \<or>
     (0x1FF6 \<le> c \<and> c \<le> 0x1FFC) \<or> c = 0x2160"

definition case_ignorable14 :: "codepoint \<Rightarrow> bool" where
  "case_ignorable14 c \<longleftrightarrow>
     c = 0x27 \<or> c = 0x2E \<or> c = 0x3A \<or> c = 0x5E \<or> c = 0x60 \<or> c = 0xA8 \<or>
     c = 0xB4 \<or> c = 0xB7 \<or> c = 0x2B9 \<or> (0x300 \<le> c \<and> c \<le> 0x36F) \<or>
     (0x374 \<le> c \<and> c \<le> 0x375) \<or> c = 0x37A \<or>
     (0x384 \<le> c \<and> c \<le> 0x385) \<or> c = 0x387 \<or> c = 0x1FBD \<or>
     (0x1FBF \<le> c \<and> c \<le> 0x1FC1) \<or> (0x1FCD \<le> c \<and> c \<le> 0x1FCF) \<or>
     (0x1FDD \<le> c \<and> c \<le> 0x1FDF) \<or> (0x1FED \<le> c \<and> c \<le> 0x1FEF) \<or>
     (0x1FFD \<le> c \<and> c \<le> 0x1FFE)"

definition isalpha14 :: "codepoint \<Rightarrow> bool" where
  "isalpha14 c \<longleftrightarrow>
     (0x41 \<le> c \<and> c \<le> 0x5A) \<or> (0x61 \<le> c \<and> c \<le> 0x7A) \<or>
     c = 0x2B9 \<or> (0x370 \<le> c \<and> c \<le> 0x374) \<or>
     (0x376 \<le> c \<and> c \<le> 0x377) \<or> (0x37A \<le> c \<and> c \<le> 0x37D) \<or>
     c = 0x37F \<or> c = 0x386 \<or> (0x388 \<le> c \<and> c \<le> 0x38A) \<or> c = 0x38C \<or>
     (0x38E \<le> c \<and> c \<le> 0x3A1) \<or> (0x3A3 \<le> c \<and> c \<le> 0x3F5) \<or>
     (0x3F7 \<le> c \<and> c \<le> 0x3FF) \<or> (0x1F00 \<le> c \<and> c \<le> 0x1F15) \<or>
     (0x1F18 \<le> c \<and> c \<le> 0x1F1D) \<or> (0x1F20 \<le> c \<and> c \<le> 0x1F45) \<or>
     (0x1F48 \<le> c \<and> c \<le> 0x1F4D) \<or> (0x1F50 \<le> c \<and> c \<le> 0x1F57) \<or>
     c = 0x1F59 \<or> c = 0x1F5B \<or> c = 0x1F5D \<or>
     (0x1F5F \<le> c \<and> c \<le> 0x1F7D) \<or> (0x1F80 \<le> c \<and> c \<le> 0x1FB4) \<or>
     (0x1FB6 \<le> c \<and> c \<le> 0x1FBC) \<or> c = 0x1FBE \<or>
     (0x1FC2 \<le> c \<and> c \<le> 0x1FC4) \<or> (0x1FC6 \<le> c \<and> c \<le> 0x1FCC) \<or>
     (0x1FD0 \<le> c \<and> c \<le> 0x1FD3) \<or> (0x1FD6 \<le> c \<and> c \<le> 0x1FDB) \<or>
     (0x1FE0 \<le> c \<and> c \<le> 0x1FEC) \<or> (0x1FF2 \<le> c \<and> c \<le> 0x1FF4) \<or>
     (0x1FF6 \<le> c \<and> c \<le> 0x1FFC)"

definition isupper14 :: "codepoint \<Rightarrow> bool" where
  "isupper14 c \<longleftrightarrow>
     (0x41 \<le> c \<and> c \<le> 0x5A) \<or> c = 0x370 \<or> c = 0x372 \<or> c = 0x376 \<or>
     c = 0x37F \<or> c = 0x386 \<or> (0x388 \<le> c \<and> c \<le> 0x38A) \<or> c = 0x38C \<or>
     (0x38E \<le> c \<and> c \<le> 0x38F) \<or> (0x391 \<le> c \<and> c \<le> 0x3A1) \<or>
     (0x3A3 \<le> c \<and> c \<le> 0x3AB) \<or> c = 0x3CF \<or>
     (0x3D2 \<le> c \<and> c \<le> 0x3D4) \<or> c = 0x3D8 \<or> c = 0x3DA \<or> c = 0x3DC \<or>
     c = 0x3DE \<or> c = 0x3E0 \<or> c = 0x3E2 \<or> c = 0x3E4 \<or> c = 0x3E6 \<or>
     c = 0x3E8 \<or> c = 0x3EA \<or> c = 0x3EC \<or> c = 0x3EE \<or> c = 0x3F4 \<or>
     c = 0x3F7 \<or> (0x3F9 \<le> c \<and> c \<le> 0x3FA) \<or>
     (0x3FD \<le> c \<and> c \<le> 0x3FF) \<or> (0x1F08 \<le> c \<and> c \<le> 0x1F0F) \<or>
     (0x1F18 \<le> c \<and> c \<le> 0x1F1D) \<or> (0x1F28 \<le> c \<and> c \<le> 0x1F2F) \<or>
     (0x1F38 \<le> c \<and> c \<le> 0x1F3F) \<or> (0x1F48 \<le> c \<and> c \<le> 0x1F4D) \<or>
     c = 0x1F59 \<or> c = 0x1F5B \<or> c = 0x1F5D \<or> c = 0x1F5F \<or>
     (0x1F68 \<le> c \<and> c \<le> 0x1F6F) \<or> (0x1FB8 \<le> c \<and> c \<le> 0x1FBB) \<or>
     (0x1FC8 \<le> c \<and> c \<le> 0x1FCB) \<or> (0x1FD8 \<le> c \<and> c \<le> 0x1FDB) \<or>
     (0x1FE8 \<le> c \<and> c \<le> 0x1FEC) \<or> (0x1FF8 \<le> c \<and> c \<le> 0x1FFB) \<or>
     c = 0x2160"

definition isalnum14 :: "codepoint \<Rightarrow> bool" where
  "isalnum14 c \<longleftrightarrow>
     (0x30 \<le> c \<and> c \<le> 0x39) \<or> (0x41 \<le> c \<and> c \<le> 0x5A) \<or>
     (0x61 \<le> c \<and> c \<le> 0x7A) \<or> c = 0x2B9 \<or>
     (0x370 \<le> c \<and> c \<le> 0x374) \<or> (0x376 \<le> c \<and> c \<le> 0x377) \<or>
     (0x37A \<le> c \<and> c \<le> 0x37D) \<or> c = 0x37F \<or> c = 0x386 \<or>
     (0x388 \<le> c \<and> c \<le> 0x38A) \<or> c = 0x38C \<or>
     (0x38E \<le> c \<and> c \<le> 0x3A1) \<or> (0x3A3 \<le> c \<and> c \<le> 0x3F5) \<or>
     (0x3F7 \<le> c \<and> c \<le> 0x3FF) \<or> (0x1F00 \<le> c \<and> c \<le> 0x1F15) \<or>
     (0x1F18 \<le> c \<and> c \<le> 0x1F1D) \<or> (0x1F20 \<le> c \<and> c \<le> 0x1F45) \<or>
     (0x1F48 \<le> c \<and> c \<le> 0x1F4D) \<or> (0x1F50 \<le> c \<and> c \<le> 0x1F57) \<or>
     c = 0x1F59 \<or> c = 0x1F5B \<or> c = 0x1F5D \<or>
     (0x1F5F \<le> c \<and> c \<le> 0x1F7D) \<or> (0x1F80 \<le> c \<and> c \<le> 0x1FB4) \<or>
     (0x1FB6 \<le> c \<and> c \<le> 0x1FBC) \<or> c = 0x1FBE \<or>
     (0x1FC2 \<le> c \<and> c \<le> 0x1FC4) \<or> (0x1FC6 \<le> c \<and> c \<le> 0x1FCC) \<or>
     (0x1FD0 \<le> c \<and> c \<le> 0x1FD3) \<or> (0x1FD6 \<le> c \<and> c \<le> 0x1FDB) \<or>
     (0x1FE0 \<le> c \<and> c \<le> 0x1FEC) \<or> (0x1FF2 \<le> c \<and> c \<le> 0x1FF4) \<or>
     (0x1FF6 \<le> c \<and> c \<le> 0x1FFC) \<or> c = 0x2160"

definition unicode14 :: ucd where
  "unicode14 =
     \<lparr>decomposition = decomposition14,
      combining = combining14,
      composition = composition14,
      category = category14,
      upper_full = upper_full14,
      lower_full = lower_full14,
      cased = cased14,
      case_ignorable = case_ignorable14,
      isalpha = isalpha14,
      isupper = isupper14,
      isalnum = isalnum14\<rparr>"

section \<open>Properties\<close>

lemma re_sub_runs_delete: "re_sub_runs P (\<lambda>m. []) s = filter (\<lambda>c. \<not> P c) s"
proof (induction "length s" arbitrary: s rule: less_induct)
  case less
  show ?case
  proof (cases s)
    case Nil
    then show ?thesis by simp
  next
    case (Cons c cs)
    show ?thesis
    proof (cases "P c")
      case True
      have "length (dropWhile P cs) < length s"
        using Cons by (simp add: length_dropWhile_le less_Suc_eq_le)
      then have "re_sub_runs P (\<lambda>m. []) (dropWhile P cs) = filter (\<lambda>c. \<not> P c) (dropWhile P cs)"
        by (rule less)
      also have "\<dots> = filter (\<lambda>c. \<not> P c) cs"
        by (induction cs) auto
      finally show ?thesis using Cons True by simp
    next
      case False
      then show ?thesis using Cons less by simp
    qed
  qed
qed

subsection \<open>Substitution tables with one-character keys\<close>

text \<open>
  A table whose keys are single characters, none of which occurs in a replacement,
  acts as one simultaneous pass: every character is looked up once.
\<close>

definition glyph_of :: "(str \<times> str) list \<Rightarrow> codepoint \<Rightarrow> str" where
  "glyph_of table c = (case map_of table [c] of Some v \<Rightarrow> v | None \<Rightarrow> [c])"

definition single_chars :: "(str \<times> str) list \<Rightarrow> bool" where
  "single_chars table = list_all (\<lambda>(k, v). length k = 1) table"

definition keys_fresh :: "(str \<times> str) list \<Rightarrow> bool" where
  "keys_fresh table =
     list_all (\<lambda>(k, v). list_all (\<lambda>d. list_all (\<lambda>(k', v'). k' \<noteq> [d]) table) v) table"

lemma replace_scan_single:
  "replace_scan [k] v s = concat (map (\<lambda>c. if c = k then v else [c]) s)"
  by (induction s) auto

lemma py_replace_single:
  "py_replace [k] v s = concat (map (\<lambda>c. if c = k then v else [c]) s)"
  by (simp add: py_replace_def replace_scan_single)

lemma glyph_of_fresh:
  "list_all (\<lambda>(k', v'). k' \<noteq> [d]) table \<Longrightarrow> glyph_of table d = [d]"
  by (induction table) (auto simp: glyph_of_def)

lemma concat_glyph_of_fresh:
  "list_all (\<lambda>d. list_all (\<lambda>(k', v'). k' \<noteq> [d]) table) v \<Longrightarrow>
   concat (map (glyph_of table) v) = v"
  by (induction v) (auto simp: glyph_of_fresh)

lemma keys_fresh_Cons:
  assumes "keys_fresh ((k, v) # table)"
  shows "keys_fresh table" and "list_all (\<lambda>d. list_all (\<lambda>(k', v'). k' \<noteq> [d]) table) v"
  using assms unfolding keys_fresh_def
  by (auto simp: list_all_iff)

lemma replace_all_single_pass:
  "single_chars table \<Longrightarrow> keys_fresh table \<Longrightarrow>
   replace_all table s = concat (map (glyph_of table) s)"
proof (induction table arbitrary: s)
  case Nil
  then show ?case by (simp add: replace_all_def glyph_of_def)
next
  case (Cons e table)
  obtain k v where e: "e = (k, v)" by (cases e)
  from Cons.prems(1) e obtain c where k: "k = [c]"
    by (cases k) (auto simp: single_chars_def)
  have single: "single_chars table"
    using Cons.prems(1) by (simp add: single_chars_def)
  have fresh: "keys_fresh table"
    and v: "list_all (\<lambda>d. list_all (\<lambda>(k', v'). k' \<noteq> [d]) table) v"
    using keys_fresh_Cons [of k v table] Cons.prems(2) e by simp_all
  have step: "concat (map (glyph_of table) (if x = c then v else [x])) = glyph_of (e # table) x"
    for x
    using concat_glyph_of_fresh [OF v] by (simp add: e k glyph_of_def)
  have "replace_all (e # table) s = replace_all table (py_replace [c] v s)"
    by (simp add: replace_all_def e k)
  also have "\<dots> = concat (map (glyph_of table) (py_replace [c] v s))"
    using Cons.IH [OF single fresh] .
  also have "\<dots> = concat (map (\<lambda>x. concat (map (glyph_of table) (if x = c then v else [x]))) s)"
    unfolding py_replace_single by (induction s) simp_all
  also have "\<dots> = concat (map (glyph_of (e # table)) s)"
    by (simp only: step)
  finally show ?case .
qed

lemma iota_tables_single_pass:
  "single_chars lowercase_map" "keys_fresh lowercase_map"
  "single_chars uppercase_map" "keys_fresh uppercase_map"
  by (simp_all add: single_chars_def keys_fresh_def lowercase_map_def uppercase_map_def)

lemma convert_iota_single_pass:
  "convert_iota_subscript_to_adscript s =
   concat (map (glyph_of uppercase_map) (concat (map (glyph_of lowercase_map) s)))"
  by (simp add: convert_iota_subscript_to_adscript_def
      replace_all_single_pass iota_tables_single_pass)

lemma convert_iota_append:
  "convert_iota_subscript_to_adscript (xs @ ys) =
   convert_iota_subscript_to_adscript xs @ convert_iota_subscript_to_adscript ys"
  by (simp add: convert_iota_single_pass)

lemma convert_iota_Cons:
  "convert_iota_subscript_to_adscript (c # ys) =
   convert_iota_subscript_to_adscript [c] @ convert_iota_subscript_to_adscript ys"
  using convert_iota_append [of "[c]" ys] by simp

subsection \<open>Scriptio continua\<close>

text \<open>
  C5. For every input, \<open>apply_scriptio_continua\<close> returns the input with every space
  (U+0020) and tab (U+0009) deleted and every other character, so every line break,
  kept in place and in order; the Iliad example loses its two spaces.
\<close>

theorem apply_scriptio_continua_deletes_blanks:
  "apply_scriptio_continua s = filter (\<lambda>c. c \<noteq> 0x20 \<and> c \<noteq> 0x09) s \<and>
   apply_scriptio_continua
     [0x39C, 0x397, 0x39D, 0x399, 0x39D, 0x20, 0x391, 0x395, 0x399, 0x394, 0x395, 0x20,
      0x398, 0x395, 0x391] =
     [0x39C, 0x397, 0x39D, 0x399, 0x39D, 0x391, 0x395, 0x399, 0x394, 0x395, 0x398, 0x395, 0x391]"
  by (simp add: apply_scriptio_continua_def re_sub_runs_delete)

subsection \<open>Iota subscript to adscript\<close>

text \<open>
  C2. On the docstring's inputs the conversion returns lowercase adscripts:
  U+1FB3 becomes \<open>\<alpha>\<iota>\<close> (U+03B1 U+03B9), not the capitals U+0391 U+0399, and in
  \<open>\<tau>\<omega> \<lambda>o\<gamma>\<omega>\<close> only the two omegas with iota subscript change, to U+03C9 U+03B9;
  the other letters keep their case and the omicron its accent.
\<close>

theorem convert_iota_docstring_inputs:
  "convert_iota_subscript_to_adscript [0x1FB3] = [0x3B1, 0x3B9] \<and>
   convert_iota_subscript_to_adscript [0x1FB3] \<noteq> [0x391, 0x399] \<and>
   convert_iota_subscript_to_adscript [0x3C4, 0x1FF7, 0x20, 0x3BB, 0x3CC, 0x3B3, 0x1FF3] =
     [0x3C4, 0x3C9, 0x3B9, 0x20, 0x3BB, 0x3CC, 0x3B3, 0x3C9, 0x3B9] \<and>
   convert_iota_subscript_to_adscript [0x3C4, 0x1FF7, 0x20, 0x3BB, 0x3CC, 0x3B3, 0x1FF3] \<noteq>
     [0x3A4, 0x3A9, 0x399, 0x20, 0x39B, 0x39F, 0x393, 0x3A9, 0x399]"
  by (simp add: convert_iota_single_pass glyph_of_def lowercase_map_def uppercase_map_def)

text \<open>
  C10. The lowercase table also holds five vowels that carry no iota subscript: alpha
  with vrachy (U+1FB0), with macron (U+1FB1) and with perispomeni (U+1FB6), eta with
  perispomeni (U+1FC6) and omega with perispomeni (U+1FF6). Wherever one of them stands
  in the input, the output has the bare lowercase vowel in its place, and none of the
  five is left in any output.
\<close>

theorem convert_iota_strips_accent_only_vowels:
  "convert_iota_subscript_to_adscript (xs @ 0x1FB0 # ys) =
     convert_iota_subscript_to_adscript xs @ 0x3B1 # convert_iota_subscript_to_adscript ys \<and>
   convert_iota_subscript_to_adscript (xs @ 0x1FB1 # ys) =
     convert_iota_subscript_to_adscript xs @ 0x3B1 # convert_iota_subscript_to_adscript ys \<and>
   convert_iota_subscript_to_adscript (xs @ 0x1FB6 # ys) =
     convert_iota_subscript_to_adscript xs @ 0x3B1 # convert_iota_subscript_to_adscript ys \<and>
   convert_iota_subscript_to_adscript (xs @ 0x1FC6 # ys) =
     convert_iota_subscript_to_adscript xs @ 0x3B7 # convert_iota_subscript_to_adscript ys \<and>
   convert_iota_subscript_to_adscript (xs @ 0x1FF6 # ys) =
     convert_iota_subscript_to_adscript xs @ 0x3C9 # convert_iota_subscript_to_adscript ys"
proof -
  have one: "convert_iota_subscript_to_adscript [0x1FB0] = [0x3B1]"
    "convert_iota_subscript_to_adscript [0x1FB1] = [0x3B1]"
    "convert_iota_subscript_to_adscript [0x1FB6] = [0x3B1]"
    "convert_iota_subscript_to_adscript [0x1FC6] = [0x3B7]"
    "convert_iota_subscript_to_adscript [0x1FF6] = [0x3C9]"
    by (simp_all add: convert_iota_single_pass glyph_of_def lowercase_map_def
        uppercase_map_def)
  show ?thesis
    by (simp add: convert_iota_append convert_iota_Cons [of _ ys] one)
qed

end
